theory Spec2Isabelle
  imports Main
begin

section \<open>JavaScript values\<close>

text \<open>
  The mapping core is dynamically typed: filters, entities, rows and statement
  parameters are plain JavaScript values. \<open>VNum\<close> stands for an integer-valued
  number, \<open>VDate\<close> for a \<open>Date\<close> object (milliseconds since the epoch),
  \<open>VObj\<close> for a plain object with its own enumerable properties in insertion order
  (keys pairwise distinct), \<open>VRef\<close> for a reference to an entity instance that
  lives in the heap of the persistence orchestrator.
\<close>

type_synonym addr = nat

datatype val =
    VUndef
  | VNull
  | VBool bool
  | VNum int
  | VStr string
  | VDate int
  | VArr "val list"
  | VObj "(string \<times> val) list"
  | VRef addr

datatype error = TypeError | Error string

text \<open>Truthiness, as \<open>if (v)\<close>, \<open>!v\<close>, \<open>a && b\<close> and \<open>a || b\<close> test it.\<close>

fun truthy :: "val \<Rightarrow> bool" where
  "truthy VUndef = False"
| "truthy VNull = False"
| "truthy (VBool b) = b"
| "truthy (VNum n) = (n \<noteq> 0)"
| "truthy (VStr s) = (s \<noteq> [])"
| "truthy (VDate d) = True"
| "truthy (VArr xs) = True"
| "truthy (VObj kvs) = True"
| "truthy (VRef a) = True"

text \<open>Reading and writing a property of an object held as a key/value list.\<close>

definition get :: "(string \<times> val) list \<Rightarrow> string \<Rightarrow> val" where
  "get kvs k = (case map_of kvs k of None \<Rightarrow> VUndef | Some v \<Rightarrow> v)"

fun put :: "(string \<times> val) list \<Rightarrow> string \<Rightarrow> val \<Rightarrow> (string \<times> val) list" where
  "put [] k v = [(k, v)]"
| "put ((k', v') # kvs) k v = (if k' = k then (k, v) # kvs else (k', v') # put kvs k v)"

text \<open>
  Member access \<open>v.k\<close> for the names the generator reads (\<open>operator\<close>,
  \<open>value\<close>, \<open>id\<close>, \<open>insertId\<close>): a \<open>TypeError\<close> on \<open>undefined\<close> and
  \<open>null\<close>, \<open>undefined\<close> on values that have no such property. Inside the SQL
  generator an entity reference is opaque and has none of these properties.
\<close>

fun member :: "val \<Rightarrow> string \<Rightarrow> error + val" where
  "member VUndef k = Inl TypeError"
| "member VNull k = Inl TypeError"
| "member (VObj kvs) k = Inr (get kvs k)"
| "member v k = Inr VUndef"

text \<open>Decimal rendering of integers, as a template literal prints a number.\<close>

definition digit_char :: "nat \<Rightarrow> char" where
  "digit_char d = ''0123456789'' ! d"

function show_nat :: "nat \<Rightarrow> string" where
  "show_nat n = (if n < 10 then [digit_char n] else show_nat (n div 10) @ [digit_char (n mod 10)])"
  by pat_completeness auto
termination
  by (relation "measure id") auto

declare show_nat.simps [simp del]

definition show_int :: "int \<Rightarrow> string" where
  "show_int i = (if i < 0 then CHR ''-'' # show_nat (nat (- i)) else show_nat (nat i))"

text \<open>Index access \<open>v[i]\<close>.\<close>

fun index_val :: "val \<Rightarrow> nat \<Rightarrow> error + val" where
  "index_val VUndef i = Inl TypeError"
| "index_val VNull i = Inl TypeError"
| "index_val (VArr xs) i = Inr (if i < length xs then xs ! i else VUndef)"
| "index_val (VStr s) i = Inr (if i < length s then VStr [s ! i] else VUndef)"
| "index_val (VObj kvs) i = Inr (get kvs (show_nat i))"
| "index_val v i = Inr VUndef"

text \<open>\<open>xs.join(sep)\<close> on strings.\<close>

fun join :: "string \<Rightarrow> string list \<Rightarrow> string" where
  "join sep [] = []"
| "join sep [x] = x"
| "join sep (x # y # ys) = x @ sep @ join sep (y # ys)"

text \<open>
  String conversion (template literals, \<open>Array.prototype.join\<close>, \<open>+\<close> with a
  string). The text of a \<open>Date\<close> depends on the host's time zone and is the
  parameter \<open>ds\<close>.
\<close>

fun to_str :: "(int \<Rightarrow> string) \<Rightarrow> val \<Rightarrow> string" where
  "to_str ds VUndef = ''undefined''"
| "to_str ds VNull = ''null''"
| "to_str ds (VBool b) = (if b then ''true'' else ''false'')"
| "to_str ds (VNum n) = show_int n"
| "to_str ds (VStr s) = s"
| "to_str ds (VDate d) = ds d"
| "to_str ds (VArr xs) =
     join '','' (map (\<lambda>x. if x = VUndef \<or> x = VNull then [] else to_str ds x) xs)"
| "to_str ds (VObj kvs) = ''[object Object]''"
| "to_str ds (VRef a) = ''[object Object]''"

section \<open>Enumerations (enums.ts)\<close>

datatype ColumnType =
  String | Number | Boolean | Integer | SimpleArray | SimpleJson | Text | DateTime | Date

datatype RelationType = OneToOne | OneToMany | ManyToOne | ManyToMany

datatype ListenerType =
  BeforeInsert | AfterInsert | BeforeUpdate | AfterUpdate | BeforeRemove | AfterRemove | AfterLoad

datatype OperatorType =
  Equal | NotEqual | LessThan | GreaterThan | LessThanOrEqual | GreaterThanOrEqual
  | Between | Like | ILike | In | IsNull | Raw | NotOp

text \<open>
  The string value each member of \<open>OperatorType\<close> is declared with. The member
  \<open>Not\<close> of the source is written \<open>NotOp\<close>, since \<open>Not\<close> is the negation of
  HOL.
\<close>

fun op_value :: "OperatorType \<Rightarrow> string" where
  "op_value Equal = ''EQUAL''"
| "op_value NotEqual = ''NOT''"
| "op_value LessThan = ''LT''"
| "op_value GreaterThan = ''GT''"
| "op_value LessThanOrEqual = ''LTE''"
| "op_value GreaterThanOrEqual = ''GTE''"
| "op_value Between = ''BETWEEN''"
| "op_value Like = ''LIKE''"
| "op_value ILike = ''ILIKE''"
| "op_value In = ''IN''"
| "op_value IsNull = ''IS_NULL''"
| "op_value Raw = ''RAW''"
| "op_value NotOp = ''NOT''"

text \<open>The operator constructors of the filter algebra: \<open>{ operator, value }\<close>.\<close>

definition op_node :: "OperatorType \<Rightarrow> val \<Rightarrow> val" where
  "op_node op v = VObj [(''operator'', VStr (op_value op)), (''value'', v)]"

section \<open>SqlGenerator.buildConditions\<close>

type_synonym filter = "(string \<times> val) list"

text \<open>
  One iteration of the \<open>map\<close> callback of \<open>buildConditions\<close>: the condition text
  for one key and the values it pushes. The guard \<open>value && typeof value === 'object'
  && value.operator\<close> holds of a plain object with a truthy \<open>operator\<close> property
  only: arrays and dates have no such property, and \<open>null\<close> is falsy. The
  \<open>switch\<close> compares \<open>value.operator\<close> with the case labels in source order and
  takes the first label that is strictly equal; when no label matches, control leaves
  the \<open>switch\<close> and the value is treated as a literal. The tests
  \<open>typeof value.value === 'object' && value.value.operator\<close> of the two \<open>NOT\<close>
  cases read a property of \<open>null\<close> when the wrapped value is \<open>null\<close>, which is a
  \<open>TypeError\<close>. \<open>not_condition\<close> is the body of \<open>case OperatorType.Not\<close>.
\<close>

definition is_op :: "val \<Rightarrow> OperatorType \<Rightarrow> bool" where
  "is_op opv op = (opv = VStr (op_value op))"

definition placeholders :: "nat \<Rightarrow> string" where
  "placeholders n = join '', '' (replicate n ''?'')"

definition not_condition :: "string \<Rightarrow> val \<Rightarrow> error + (string \<times> val list)" where
  "not_condition key inner =
     (case inner of
        VNull \<Rightarrow> Inl TypeError
      | VObj kvs \<Rightarrow>
          (let innerOp = get kvs ''operator''; innerVal = get kvs ''value'' in
           if \<not> truthy innerOp then Inr (key @ '' != ?'', [inner])
           else if is_op innerOp In then
             (case innerVal of
                VArr xs \<Rightarrow> Inr (key @ '' NOT IN ('' @ placeholders (length xs) @ '')'', xs)
              | _ \<Rightarrow> Inl TypeError)
           else if is_op innerOp Like then Inr (key @ '' NOT LIKE ?'', [innerVal])
           else if is_op innerOp IsNull then Inr (key @ '' IS NOT NULL'', [])
           else Inr (key @ '' != ?'', [inner]))
      | _ \<Rightarrow> Inr (key @ '' != ?'', [inner]))"

definition condition :: "(int \<Rightarrow> string) \<Rightarrow> string \<Rightarrow> val \<Rightarrow> error + (string \<times> val list)" where
  "condition ds key v =
     (case v of
        VObj kvs \<Rightarrow>
          (let opv = get kvs ''operator''; vv = get kvs ''value'' in
           if \<not> truthy opv then Inr (key @ '' = ?'', [v])
           else if is_op opv Like then Inr (key @ '' LIKE ?'', [vv])
           else if is_op opv In then
             (case vv of
                VArr xs \<Rightarrow> Inr (key @ '' IN ('' @ placeholders (length xs) @ '')'', xs)
              | _ \<Rightarrow> Inl TypeError)
           else if is_op opv NotEqual then
             (if vv = VNull then Inl TypeError else Inr (key @ '' != ?'', [vv]))
           else if is_op opv LessThan then Inr (key @ '' < ?'', [vv])
           else if is_op opv GreaterThan then Inr (key @ '' > ?'', [vv])
           else if is_op opv LessThanOrEqual then Inr (key @ '' <= ?'', [vv])
           else if is_op opv GreaterThanOrEqual then Inr (key @ '' >= ?'', [vv])
           else if is_op opv Between then
             (case index_val vv 0 of
                Inl e \<Rightarrow> Inl e
              | Inr a \<Rightarrow> (case index_val vv 1 of
                            Inl e \<Rightarrow> Inl e
                          | Inr b \<Rightarrow> Inr (key @ '' BETWEEN ? AND ?'', [a, b])))
           else if is_op opv IsNull then Inr (key @ '' IS NULL'', [])
           else if is_op opv Equal then Inr (key @ '' = ?'', [vv])
           else if is_op opv ILike then Inr (key @ '' LIKE ?'', [vv])
           else if is_op opv Raw then Inr (key @ '' '' @ to_str ds vv, [])
           else if is_op opv NotOp then not_condition key vv
           else Inr (key @ '' = ?'', [v]))
      | _ \<Rightarrow> Inr (key @ '' = ?'', [v]))"

text \<open>
  The whole of \<open>buildConditions\<close>: the keys in order, the texts joined with
  \<open>AND\<close>, the values concatenated. An exception in one callback aborts the call.
\<close>

fun conditions :: "(int \<Rightarrow> string) \<Rightarrow> filter \<Rightarrow> error + (string list \<times> val list)" where
  "conditions ds [] = Inr ([], [])"
| "conditions ds ((k, v) # kvs) =
     (case condition ds k v of
        Inl e \<Rightarrow> Inl e
      | Inr (c, vs) \<Rightarrow>
          (case conditions ds kvs of
             Inl e \<Rightarrow> Inl e
           | Inr (cs, ws) \<Rightarrow> Inr (c # cs, vs @ ws)))"

definition buildConditions :: "(int \<Rightarrow> string) \<Rightarrow> filter \<Rightarrow> error + (string \<times> val list)" where
  "buildConditions ds wh =
     (case conditions ds wh of
        Inl e \<Rightarrow> Inl e
      | Inr (cs, vs) \<Rightarrow> Inr (join '' AND '' cs, vs))"

section \<open>Metadata (metadata.ts, types)\<close>

text \<open>
  Entity classes are compared by identity; a class is a number here. A relation
  stores its related type as a zero-argument arrow function that is called on each
  use: \<open>TypeThunk (Some c)\<close> returns the class \<open>c\<close>, \<open>TypeThunk None\<close> throws when
  called.
\<close>

type_synonym target = nat

datatype type_ref = TypeThunk "target option" | TypeClass target | TypeName string

datatype inverse_side = InverseName string | InverseFn "string option"

datatype cascade = CascadeAll bool | CascadeList "string list"

datatype ColumnMode = Regular | CreateDate | UpdateDate | DeleteDate | Version | ObjectId

record ValueTransformer =
  transform_to :: "val \<Rightarrow> val"
  transform_from :: "val \<Rightarrow> val"

record ColumnOptions =
  opt_name :: "string option"
  opt_type :: "ColumnType option"
  opt_primary :: bool
  opt_generated :: bool
  opt_nullable :: "bool option"
  opt_transformer :: "ValueTransformer option"

record ColumnMetadata =
  col_target :: target
  col_propertyName :: string
  col_options :: ColumnOptions
  col_mode :: "ColumnMode option"

record EntityMetadata =
  tbl_target :: target
  tbl_name :: string
  tableName :: string

record RelationOptions =
  onDelete :: "string option"
  cascade :: "cascade option"

record RelationMetadata =
  rel_target :: target
  rel_propertyName :: string
  relationType :: RelationType
  rel_type :: type_ref
  inverseSide :: "inverse_side option"
  rel_options :: "RelationOptions option"
  joinTable :: bool
  joinTableName :: "string option"
  joinColumn :: bool
  joinColumnName :: "string option"

record JoinTableMetadata =
  jt_target :: target
  jt_propertyName :: string
  jt_name :: "string option"

record EntityListenerMetadata =
  lis_target :: target
  lis_propertyName :: string
  lis_type :: ListenerType

record MetadataArgsStorage =
  columns :: "ColumnMetadata list"
  tables :: "EntityMetadata list"
  relations :: "RelationMetadata list"
  entityListeners :: "EntityListenerMetadata list"
  joinTables :: "JoinTableMetadata list"

definition findTable :: "MetadataArgsStorage \<Rightarrow> target \<Rightarrow> EntityMetadata option" where
  "findTable st t = find (\<lambda>tb. tbl_target tb = t) (tables st)"

definition findColumns :: "MetadataArgsStorage \<Rightarrow> target \<Rightarrow> ColumnMetadata list" where
  "findColumns st t = filter (\<lambda>c. col_target c = t) (columns st)"

definition findRelations :: "MetadataArgsStorage \<Rightarrow> target \<Rightarrow> RelationMetadata list" where
  "findRelations st t = filter (\<lambda>r. rel_target r = t) (relations st)"

definition findListeners ::
  "MetadataArgsStorage \<Rightarrow> target \<Rightarrow> ListenerType \<Rightarrow> EntityListenerMetadata list" where
  "findListeners st t ty = filter (\<lambda>l. lis_target l = t \<and> lis_type l = ty) (entityListeners st)"

text \<open>
  The recurring block \<open>let relatedClass = relation.type; try { if (typeof relatedClass
  === 'function' && !relatedClass.prototype) relatedClass = relatedClass(); } catch
  (e) { }\<close>: the class the relation resolves to, or \<open>None\<close> when what is left is
  the arrow function itself or a string, which is no class of the registry.
\<close>

fun resolve :: "type_ref \<Rightarrow> target option" where
  "resolve (TypeThunk r) = r"
| "resolve (TypeClass c) = Some c"
| "resolve (TypeName n) = None"

definition relatedTable :: "MetadataArgsStorage \<Rightarrow> RelationMetadata \<Rightarrow> EntityMetadata option" where
  "relatedTable st r = (case resolve (rel_type r) of None \<Rightarrow> None | Some c \<Rightarrow> findTable st c)"

definition relatedColumns :: "MetadataArgsStorage \<Rightarrow> RelationMetadata \<Rightarrow> ColumnMetadata list" where
  "relatedColumns st r = (case resolve (rel_type r) of None \<Rightarrow> [] | Some c \<Rightarrow> findColumns st c)"

text \<open>\<open>a || b\<close> on an optional string: the empty string is falsy.\<close>

definition or_else :: "string option \<Rightarrow> string \<Rightarrow> string" where
  "or_else a b = (case a of None \<Rightarrow> b | Some s \<Rightarrow> if s = [] then b else s)"

definition columnName :: "ColumnMetadata \<Rightarrow> string" where
  "columnName c = or_else (opt_name (col_options c)) (col_propertyName c)"

text \<open>The test for the side that stores the foreign key.\<close>

definition owning :: "RelationMetadata \<Rightarrow> bool" where
  "owning r = (relationType r = ManyToOne \<or> (relationType r = OneToOne \<and> joinColumn r))"

definition fkName :: "RelationMetadata \<Rightarrow> string" where
  "fkName r = or_else (joinColumnName r) (rel_propertyName r @ ''Id'')"

text \<open>\<open>storage.findRelations(target).find(r => r.propertyName === relationName)\<close>.\<close>

definition find_relation :: "MetadataArgsStorage \<Rightarrow> target \<Rightarrow> string \<Rightarrow> RelationMetadata option" where
  "find_relation st t relationName =
     find (\<lambda>r. rel_propertyName r = relationName) (findRelations st t)"

section \<open>SqlGenerator (sql-generator.ts)\<close>

type_synonym stmt = "string \<times> val list"

definition SqlGenerator_insert ::
  "EntityMetadata \<Rightarrow> ColumnMetadata list \<Rightarrow> (string \<times> val) list \<Rightarrow> stmt" where
  "SqlGenerator_insert metadata cols entity =
     (let columnNames = map columnName cols;
          phs = join '', '' (map (\<lambda>_. ''?'') columnNames);
          vals = map (\<lambda>c. get entity (col_propertyName c)) cols
      in (''INSERT INTO '' @ tableName metadata @ '' ('' @ join '', '' columnNames
            @ '') VALUES ('' @ phs @ '')'', vals))"

text \<open>The aliased columns one requested relation adds to the projection.\<close>

definition select_relation_columns ::
  "MetadataArgsStorage \<Rightarrow> EntityMetadata \<Rightarrow> string \<Rightarrow> string" where
  "select_relation_columns st metadata relationName =
     (case find_relation st (tbl_target metadata) relationName of
        None \<Rightarrow> []
      | Some relation \<Rightarrow>
          (case relatedTable st relation of
             None \<Rightarrow> []
           | Some relatedTableMeta \<Rightarrow>
               concat (map (\<lambda>col. '', '' @ tableName relatedTableMeta @ ''.'' @ columnName col
                                   @ '' as '' @ relationName @ ''_'' @ columnName col)
                           (relatedColumns st relation))))"

text \<open>
  The foreign-key column of an inverse side: the first relation of the related type
  that points back at the owner and satisfies \<open>P\<close>, else the placeholder.
\<close>

definition inverse_fkName ::
  "MetadataArgsStorage \<Rightarrow> EntityMetadata \<Rightarrow> EntityMetadata option
     \<Rightarrow> (RelationMetadata \<Rightarrow> bool) \<Rightarrow> string" where
  "inverse_fkName st metadata relatedTableMeta P =
     (case relatedTableMeta of
        None \<Rightarrow> ''foreignKey''
      | Some rt \<Rightarrow>
          (case find (\<lambda>r. resolve (rel_type r) = Some (tbl_target metadata) \<and> P r)
                     (findRelations st (tbl_target rt)) of
             None \<Rightarrow> ''foreignKey''
           | Some matchingRelation \<Rightarrow>
               or_else (joinColumnName matchingRelation) (rel_propertyName matchingRelation @ ''Id'')))"

text \<open>The \<open>LEFT JOIN\<close> text one requested relation adds.\<close>

definition select_relation_join ::
  "MetadataArgsStorage \<Rightarrow> EntityMetadata \<Rightarrow> string \<Rightarrow> string" where
  "select_relation_join st metadata relationName =
     (case find_relation st (tbl_target metadata) relationName of
        None \<Rightarrow> []
      | Some relation \<Rightarrow>
          (let relatedTableMeta = relatedTable st relation;
               relatedTableName = (case relatedTableMeta of
                                     Some rt \<Rightarrow> tableName rt
                                   | None \<Rightarrow> relationName @ ''Table'');
               t = tableName metadata
           in if relationType relation = ManyToMany then
                (let joinTableMeta = find (\<lambda>jt. jt_target jt = tbl_target metadata
                                                 \<and> jt_propertyName jt = relationName) (joinTables st);
                     junctionTableName = or_else (case joinTableMeta of None \<Rightarrow> None | Some jt \<Rightarrow> jt_name jt)
                                                 (t @ ''_'' @ relatedTableName)
                 in '' LEFT JOIN '' @ junctionTableName @ '' ON '' @ junctionTableName @ ''.'' @ t
                      @ ''Id = '' @ t @ ''.id''
                    @ '' LEFT JOIN '' @ relatedTableName @ '' ON '' @ relatedTableName @ ''.id = ''
                      @ junctionTableName @ ''.'' @ relatedTableName @ ''Id'')
              else if owning relation then
                '' LEFT JOIN '' @ relatedTableName @ '' ON '' @ relatedTableName @ ''.id = ''
                  @ t @ ''.'' @ or_else (joinColumnName relation) (relationName @ ''Id'')
              else if relationType relation = OneToMany then
                '' LEFT JOIN '' @ relatedTableName @ '' ON '' @ relatedTableName @ ''.''
                  @ inverse_fkName st metadata relatedTableMeta (\<lambda>r. relationType r = ManyToOne)
                  @ '' = '' @ t @ ''.id''
              else if relationType relation = OneToOne \<and> \<not> joinColumn relation then
                '' LEFT JOIN '' @ relatedTableName @ '' ON '' @ relatedTableName @ ''.''
                  @ inverse_fkName st metadata relatedTableMeta
                      (\<lambda>r. relationType r = OneToOne \<and> joinColumn r)
                  @ '' = '' @ t @ ''.id''
              else
                '' LEFT JOIN '' @ relatedTableName @ '' ON '' @ relatedTableName
                  @ ''.foreignKey = '' @ t @ ''.id''))"

text \<open>\<open>SELECT ... FROM ... LEFT JOIN ...\<close>: the text before the \<open>WHERE\<close> clause.\<close>

definition select_from ::
  "MetadataArgsStorage \<Rightarrow> EntityMetadata \<Rightarrow> string list \<Rightarrow> string list option \<Rightarrow> string" where
  "select_from st metadata rels sel =
     (let t = tableName metadata;
          selectClause = (case sel of
                            None \<Rightarrow> t @ ''.*''
                          | Some cs \<Rightarrow> if cs = [] then t @ ''.*''
                                       else join '', '' (map (\<lambda>col. t @ ''.'' @ col) cs))
      in ''SELECT '' @ selectClause
           @ concat (map (select_relation_columns st metadata) rels)
           @ '' FROM '' @ t
           @ concat (map (select_relation_join st metadata) rels))"

text \<open>The implicit soft-delete condition pushed onto \<open>whereClauses\<close>.\<close>

definition soft_delete_clauses ::
  "MetadataArgsStorage \<Rightarrow> EntityMetadata \<Rightarrow> bool \<Rightarrow> string list" where
  "soft_delete_clauses st metadata withDeleted =
     (if \<not> withDeleted then
        (case find (\<lambda>c. col_mode c = Some DeleteDate) (findColumns st (tbl_target metadata)) of
           None \<Rightarrow> []
         | Some deleteDateCol \<Rightarrow> [tableName metadata @ ''.'' @ columnName deleteDateCol @ '' IS NULL''])
      else [])"

text \<open>The caller's filter: the clause and values pushed for it, if any.\<close>

definition where_clauses :: "(int \<Rightarrow> string) \<Rightarrow> filter option \<Rightarrow> error + (string list \<times> val list)" where
  "where_clauses ds wh =
     (case wh of
        None \<Rightarrow> Inr ([], [])
      | Some w \<Rightarrow>
          if w = [] then Inr ([], [])
          else (case buildConditions ds w of
                  Inl e \<Rightarrow> Inl e
                | Inr (clause, vals) \<Rightarrow> if clause \<noteq> [] then Inr ([clause], vals) else Inr ([], [])))"

text \<open>\<open>ORDER BY\<close>, \<open>LIMIT\<close> and \<open>OFFSET\<close>: the text after the \<open>WHERE\<close> clause.\<close>

definition select_tail :: "(string \<times> val) list option \<Rightarrow> int option \<Rightarrow> int option \<Rightarrow> string" where
  "select_tail ord lim off =
     (case ord of
        None \<Rightarrow> []
      | Some ob \<Rightarrow>
          (let orderClauses =
                 map (\<lambda>(key, dir). key @ '' ''
                        @ (if dir = VStr ''DESC'' \<or> dir = VStr ''desc'' \<or> dir = VNum (- 1)
                           then ''DESC'' else ''ASC'')) ob
           in if orderClauses \<noteq> [] then '' ORDER BY '' @ join '', '' orderClauses else []))
     @ (case lim of None \<Rightarrow> [] | Some n \<Rightarrow> '' LIMIT '' @ show_int n)
     @ (case off of None \<Rightarrow> [] | Some n \<Rightarrow> '' OFFSET '' @ show_int n)"

definition SqlGenerator_select ::
  "(int \<Rightarrow> string) \<Rightarrow> MetadataArgsStorage \<Rightarrow> EntityMetadata \<Rightarrow> filter option \<Rightarrow> string list
     \<Rightarrow> (string \<times> val) list option \<Rightarrow> int option \<Rightarrow> int option \<Rightarrow> string list option \<Rightarrow> bool
     \<Rightarrow> error + stmt" where
  "SqlGenerator_select ds st metadata wh rels ord lim off sel withDeleted =
     (case where_clauses ds wh of
        Inl e \<Rightarrow> Inl e
      | Inr (userClauses, params) \<Rightarrow>
          (let whereClauses = soft_delete_clauses st metadata withDeleted @ userClauses
           in Inr (select_from st metadata rels sel
                     @ (if whereClauses \<noteq> [] then '' WHERE '' @ join '' AND '' whereClauses else [])
                     @ select_tail ord lim off,
                   params)))"

definition SqlGenerator_insertJunction :: "string \<Rightarrow> val \<Rightarrow> val \<Rightarrow> stmt" where
  "SqlGenerator_insertJunction junctionTableName val1 val2 =
     (''INSERT INTO '' @ junctionTableName @ '' VALUES (?, ?)'', [val1, val2])"

text \<open>
  \<open>delete\<close> and \<open>update\<close> take the filter as \<open>where: any\<close> and test it with
  \<open>if (where)\<close>: \<open>None\<close> is an absent filter (\<open>undefined\<close> or \<open>null\<close>), \<open>Some w\<close>
  a filter object, which is truthy whatever its keys. Criteria given as a number, a
  \<open>Date\<close> or an array are not part of this model.
\<close>

definition SqlGenerator_delete ::
  "(int \<Rightarrow> string) \<Rightarrow> EntityMetadata \<Rightarrow> filter option \<Rightarrow> error + stmt" where
  "SqlGenerator_delete ds metadata wh =
     (case wh of
        Some w \<Rightarrow>
          (case buildConditions ds w of
             Inl e \<Rightarrow> Inl e
           | Inr (clause, vals) \<Rightarrow>
               Inr (''DELETE FROM '' @ tableName metadata @ '' WHERE '' @ clause, vals))
      | None \<Rightarrow> Inl (Error ''DELETE requires a WHERE clause (for safety in this simple ORM)''))"

definition SqlGenerator_update ::
  "(int \<Rightarrow> string) \<Rightarrow> EntityMetadata \<Rightarrow> (string \<times> val) list \<Rightarrow> filter option \<Rightarrow> error + stmt" where
  "SqlGenerator_update ds metadata vals wh =
     (let setClauses = map (\<lambda>(key, v). key @ '' = ?'') vals;
          query = ''UPDATE '' @ tableName metadata @ '' SET '' @ join '', '' setClauses
      in case wh of
           Some w \<Rightarrow>
             (case buildConditions ds w of
                Inl e \<Rightarrow> Inl e
              | Inr (clause, whereValues) \<Rightarrow>
                  Inr (query @ '' WHERE '' @ clause, map snd vals @ whereValues))
         | None \<Rightarrow> Inl (Error ''UPDATE requires a WHERE clause''))"

fun getType :: "ColumnType option \<Rightarrow> string" where
  "getType (Some String) = ''TEXT''"
| "getType (Some SimpleArray) = ''TEXT''"
| "getType (Some SimpleJson) = ''TEXT''"
| "getType (Some Text) = ''TEXT''"
| "getType (Some Number) = ''INTEGER''"
| "getType (Some Boolean) = ''INTEGER''"
| "getType (Some Integer) = ''INTEGER''"
| "getType (Some DateTime) = ''INTEGER''"
| "getType (Some Date) = ''TEXT''"
| "getType None = ''TEXT''"

definition column_def :: "ColumnMetadata \<Rightarrow> string" where
  "column_def col =
     columnName col @ '' '' @ getType (opt_type (col_options col))
       @ (if opt_primary (col_options col) then '' PRIMARY KEY'' else [])
       @ (if opt_generated (col_options col) then '' AUTOINCREMENT'' else [])
       @ (if opt_nullable (col_options col) = Some False then '' NOT NULL'' else [])"

text \<open>The definitions the loop over the relations of \<open>createTable\<close> pushes for one relation.\<close>

definition relation_defs :: "MetadataArgsStorage \<Rightarrow> RelationMetadata \<Rightarrow> string list" where
  "relation_defs st relation =
     (if owning relation then
        (case relatedTable st relation of
           Some rt \<Rightarrow>
             [fkName relation @ '' INTEGER'',
              ''FOREIGN KEY ('' @ fkName relation @ '') REFERENCES '' @ tableName rt @ ''(id)''
                @ (case rel_options relation of
                     None \<Rightarrow> []
                   | Some ro \<Rightarrow> (case onDelete ro of
                                  None \<Rightarrow> []
                                | Some a \<Rightarrow> if a = [] then [] else '' ON DELETE '' @ a))]
         | None \<Rightarrow> [fkName relation @ '' INTEGER''])
      else [])"

definition SqlGenerator_createTable ::
  "MetadataArgsStorage \<Rightarrow> EntityMetadata \<Rightarrow> ColumnMetadata list \<Rightarrow> string" where
  "SqlGenerator_createTable st metadata cols =
     (let columnDefs = map column_def cols
                        @ concat (map (relation_defs st) (findRelations st (tbl_target metadata)))
      in ''CREATE TABLE IF NOT EXISTS '' @ tableName metadata @ '' ('' @ join '', '' columnDefs @ '')'')"


section \<open>DataSource (data-source.ts): state, transport and runtime\<close>

text \<open>
  An entity instance is an object of the heap: its class and its own properties. The
  state of a run is the heap, the statements handed to the transport so far, and the
  number of times the clock has been read.
\<close>

record entity =
  cls :: target
  props :: "(string \<times> val) list"

record state =
  heap :: "addr \<Rightarrow> entity option"
  executed :: "stmt list"
  ticks :: nat

text \<open>
  What the core takes from its surroundings: the registry, the execution transport
  (\<open>driver.executeSql\<close>, which answers a statement with a value or rejects it, and may
  depend on the statements it has seen), the clock, the host's renderings of a
  \<open>Date\<close>, \<open>JSON.stringify\<close>, \<open>JSON.parse\<close> (\<open>None\<close> when it throws), the
  \<open>Date\<close> constructor on a string, and the methods of each entity class. A method is
  taken to act on the properties of \<open>this\<close> only, or to throw.
\<close>

record runtime =
  storage :: MetadataArgsStorage
  driver :: "stmt list \<Rightarrow> stmt \<Rightarrow> error + val"
  clock :: "nat \<Rightarrow> int"
  date_string :: "int \<Rightarrow> string"
  iso_string :: "int \<Rightarrow> string"
  json_stringify :: "val \<Rightarrow> val"
  json_parse :: "string \<Rightarrow> val option"
  date_parse :: "string \<Rightarrow> val"
  methods :: "target \<Rightarrow> string \<Rightarrow> ((string \<times> val) list \<Rightarrow> error + (string \<times> val) list) option"

text \<open>
  An asynchronous method is a function of the state that completes with a value, throws,
  or (for the recursion of \<open>save\<close>, which is given fuel) does not return within the
  fuel. The state it has reached is kept in each case.
\<close>

datatype 'a outcome = Done 'a | Throw error | OutOfFuel

type_synonym 'a action = "state \<Rightarrow> 'a outcome \<times> state"

definition ret :: "'a \<Rightarrow> 'a action" where
  "ret x = (\<lambda>s. (Done x, s))"

definition throw :: "error \<Rightarrow> 'a action" where
  "throw e = (\<lambda>s. (Throw e, s))"

definition then_do :: "'a action \<Rightarrow> ('a \<Rightarrow> 'b action) \<Rightarrow> 'b action" where
  "then_do m f = (\<lambda>s. case m s of
                        (Done x, s') \<Rightarrow> f x s'
                      | (Throw e, s') \<Rightarrow> (Throw e, s')
                      | (OutOfFuel, s') \<Rightarrow> (OutOfFuel, s'))"

definition lift :: "error + 'a \<Rightarrow> 'a action" where
  "lift r = (case r of Inl e \<Rightarrow> throw e | Inr x \<Rightarrow> ret x)"

primrec for_each :: "'a list \<Rightarrow> ('a \<Rightarrow> unit action) \<Rightarrow> unit action" where
  "for_each [] f = ret ()"
| "for_each (x # xs) f = then_do (f x) (\<lambda>_. for_each xs f)"

text \<open>\<open>DataSource.query\<close>: the statement goes to the transport.\<close>

definition query :: "runtime \<Rightarrow> stmt \<Rightarrow> val action" where
  "query rt q = (\<lambda>s. ((case driver rt (executed s) q of Inl e \<Rightarrow> Throw e | Inr v \<Rightarrow> Done v),
                       s\<lparr>executed := executed s @ [q]\<rparr>))"

text \<open>\<open>new Date()\<close> reads the clock.\<close>

definition new_date :: "runtime \<Rightarrow> val action" where
  "new_date rt = (\<lambda>s. (Done (VDate (clock rt (ticks s))), s\<lparr>ticks := Suc (ticks s)\<rparr>))"

section \<open>DataSource.transaction\<close>

definition rollback_rethrow :: "runtime \<Rightarrow> error \<Rightarrow> 'a action" where
  "rollback_rethrow rt err = then_do (query rt (''ROLLBACK'', [])) (\<lambda>_. throw err)"

definition transaction :: "runtime \<Rightarrow> 'a action \<Rightarrow> 'a action" where
  "transaction rt runInTransaction =
     then_do (query rt (''BEGIN TRANSACTION'', []))
       (\<lambda>_ s. case runInTransaction s of
                 (Done result, s') \<Rightarrow>
                   (case query rt (''COMMIT'', []) s' of
                      (Done _, s'') \<Rightarrow> (Done result, s'')
                    | (Throw err, s'') \<Rightarrow> rollback_rethrow rt err s''
                    | (OutOfFuel, s'') \<Rightarrow> (OutOfFuel, s''))
               | (Throw err, s') \<Rightarrow> rollback_rethrow rt err s'
               | (OutOfFuel, s') \<Rightarrow> (OutOfFuel, s'))"

section \<open>The value transform\<close>

fun split_on :: "char \<Rightarrow> string \<Rightarrow> string list" where
  "split_on c [] = [[]]"
| "split_on c (x # xs) =
     (if x = c then [] # split_on c xs
      else (case split_on c xs of
              [] \<Rightarrow> [[x]]
            | w # ws \<Rightarrow> (x # w) # ws))"

text \<open>\<open>DataSource.transformValue\<close>: a raw row value to a property value.\<close>

definition transformValue :: "runtime \<Rightarrow> ColumnMetadata \<Rightarrow> val \<Rightarrow> val" where
  "transformValue rt col v =
     (case opt_transformer (col_options col) of
        Some t \<Rightarrow> transform_from t v
      | None \<Rightarrow>
          (case v of
             VStr s \<Rightarrow>
               if opt_type (col_options col) = Some SimpleArray then
                 (if s = [] then VArr [] else VArr (map VStr (split_on CHR '','' s)))
               else if opt_type (col_options col) = Some SimpleJson then
                 (case json_parse rt s of Some x \<Rightarrow> x | None \<Rightarrow> v)
               else if opt_type (col_options col) = Some Date then date_parse rt s
               else v
           | _ \<Rightarrow> v))"

text \<open>
  The serialization loop of \<open>save\<close> (one column): the built-in rule for the column's
  type, then the transformer if there is one; \<open>undefined\<close> is not written.
  \<open>val.join(',')\<close> is the string conversion of the array.
\<close>

fun is_array :: "val \<Rightarrow> bool" where
  "is_array (VArr xs) = True"
| "is_array v = False"

fun is_date :: "val \<Rightarrow> bool" where
  "is_date (VDate d) = True"
| "is_date v = False"

definition builtin_serialize :: "runtime \<Rightarrow> ColumnMetadata \<Rightarrow> val \<Rightarrow> val" where
  "builtin_serialize rt col v =
     (if opt_type (col_options col) = Some SimpleArray \<and> is_array v
        then VStr (to_str (date_string rt) v)
      else if opt_type (col_options col) = Some SimpleJson \<and> v \<noteq> VUndef
        then json_stringify rt v
      else if opt_type (col_options col) = Some Date \<and> is_date v
        then (case v of VDate d \<Rightarrow> VStr (iso_string rt d) | _ \<Rightarrow> v)
      else v)"

definition serialize_column ::
  "runtime \<Rightarrow> (string \<times> val) list \<Rightarrow> (string \<times> val) list \<Rightarrow> ColumnMetadata \<Rightarrow> (string \<times> val) list" where
  "serialize_column rt entity entityToPersist col =
     (let v = builtin_serialize rt col (get entity (col_propertyName col)) in
      case opt_transformer (col_options col) of
        Some t \<Rightarrow> if v \<noteq> VUndef then put entityToPersist (col_propertyName col) (transform_to t v)
                  else entityToPersist
      | None \<Rightarrow> if v \<noteq> VUndef then put entityToPersist (col_propertyName col) v
                 else entityToPersist)"

definition serialize_columns ::
  "runtime \<Rightarrow> ColumnMetadata list \<Rightarrow> (string \<times> val) list \<Rightarrow> (string \<times> val) list" where
  "serialize_columns rt cols entity = foldl (serialize_column rt entity) [] cols"


section \<open>DataSource.save\<close>

definition getEntity :: "addr \<Rightarrow> entity action" where
  "getEntity a = (\<lambda>s. case heap s a of None \<Rightarrow> (Throw TypeError, s) | Some e \<Rightarrow> (Done e, s))"

definition setProps :: "addr \<Rightarrow> (string \<times> val) list \<Rightarrow> unit action" where
  "setProps a ps = (\<lambda>s. case heap s a of
                          None \<Rightarrow> (Throw TypeError, s)
                        | Some e \<Rightarrow> (Done (), s\<lparr>heap := (heap s)(a \<mapsto> e\<lparr>props := ps\<rparr>)\<rparr>))"

definition readProp :: "addr \<Rightarrow> string \<Rightarrow> val action" where
  "readProp a k = then_do (getEntity a) (\<lambda>e. ret (get (props e) k))"

definition writeProp :: "addr \<Rightarrow> string \<Rightarrow> val \<Rightarrow> unit action" where
  "writeProp a k v = then_do (getEntity a) (\<lambda>e. setProps a (put (props e) k v))"

text \<open>\<open>v.id\<close> where \<open>v\<close> may be an entity of the heap.\<close>

definition read_id :: "val \<Rightarrow> val action" where
  "read_id v = (case v of VRef b \<Rightarrow> readProp b ''id'' | _ \<Rightarrow> lift (member v ''id''))"

text \<open>
  \<open>this.save(v)\<close> for a value found in a relation property, \<open>rec\<close> being \<open>save\<close>
  itself: a value that is no entity instance has a constructor that is not registered,
  and \<open>undefined\<close> and \<open>null\<close> have none.
\<close>

definition save_value :: "(addr \<Rightarrow> unit action) \<Rightarrow> val \<Rightarrow> unit action" where
  "save_value rec v =
     (case v of
        VRef b \<Rightarrow> rec b
      | VUndef \<Rightarrow> throw TypeError
      | VNull \<Rightarrow> throw TypeError
      | _ \<Rightarrow> throw (Error ''Entity not found in metadata''))"

text \<open>The cascade test of a relation for the current operation.\<close>

definition cascades :: "RelationMetadata \<Rightarrow> bool \<Rightarrow> bool" where
  "cascades relation isUpdate =
     (case rel_options relation of
        None \<Rightarrow> False
      | Some ro \<Rightarrow>
          (case cascade ro of
             None \<Rightarrow> False
           | Some (CascadeAll b) \<Rightarrow> b
           | Some (CascadeList ops) \<Rightarrow> (if isUpdate then ''update'' else ''insert'') \<in> set ops))"

text \<open>Step 1: the referenced object of a cascading owning to-one relation is saved first.\<close>

definition cascade_owner ::
  "(addr \<Rightarrow> unit action) \<Rightarrow> bool \<Rightarrow> addr \<Rightarrow> RelationMetadata \<Rightarrow> unit action" where
  "cascade_owner rec isUpdate a relation =
     (if cascades relation isUpdate \<and> owning relation then
        then_do (readProp a (rel_propertyName relation))
          (\<lambda>relatedEntity. if truthy relatedEntity then save_value rec relatedEntity else ret ())
      else ret ())"

text \<open>
  Steps 2 and 6: each listener of the event whose name is a method of the entity is
  called. An own property of that name hides the method of the class.
\<close>

definition call_listener :: "runtime \<Rightarrow> addr \<Rightarrow> EntityListenerMetadata \<Rightarrow> unit action" where
  "call_listener rt a listener =
     then_do (getEntity a)
       (\<lambda>e. if lis_propertyName listener \<in> fst ` set (props e) then ret ()
             else (case methods rt (cls e) (lis_propertyName listener) of
                     None \<Rightarrow> ret ()
                   | Some body \<Rightarrow>
                       (case body (props e) of
                          Inl err \<Rightarrow> throw err
                        | Inr ps \<Rightarrow> setProps a ps)))"

definition run_listeners :: "runtime \<Rightarrow> target \<Rightarrow> ListenerType \<Rightarrow> addr \<Rightarrow> unit action" where
  "run_listeners rt t ty a = for_each (findListeners (storage rt) t ty) (call_listener rt a)"

text \<open>
  Step 3, one column: \<open>(x || 0) + 1\<close> adds numbers and concatenates once a string or
  an object is involved.
\<close>

definition plus_one :: "(int \<Rightarrow> string) \<Rightarrow> val \<Rightarrow> val" where
  "plus_one ds v =
     (if \<not> truthy v then VNum 1
      else (case v of
              VNum n \<Rightarrow> VNum (n + 1)
            | VBool b \<Rightarrow> VNum 2
            | _ \<Rightarrow> VStr (to_str ds v @ ''1'')))"

definition stamp_column ::
  "runtime \<Rightarrow> bool \<Rightarrow> (string \<times> val) list \<times> nat \<Rightarrow> ColumnMetadata \<Rightarrow> (string \<times> val) list \<times> nat" where
  "stamp_column rt isUpdate en col =
     (let p = col_propertyName col;
          (e1, n1) = (if col_mode col = Some CreateDate \<and> \<not> isUpdate \<and> \<not> truthy (get (fst en) p)
                      then (put (fst en) p (VDate (clock rt (snd en))), Suc (snd en))
                      else en);
          (e2, n2) = (if col_mode col = Some UpdateDate
                      then (put e1 p (VDate (clock rt n1)), Suc n1)
                      else (e1, n1))
      in if col_mode col = Some Version \<and> \<not> isUpdate then (put e2 p (VNum 1), n2)
         else if col_mode col = Some Version \<and> isUpdate
           then (put e2 p (plus_one (date_string rt) (get e2 p)), n2)
         else (e2, n2))"

definition stamp_columns ::
  "runtime \<Rightarrow> bool \<Rightarrow> ColumnMetadata list \<Rightarrow> (string \<times> val) list \<times> nat \<Rightarrow> (string \<times> val) list \<times> nat" where
  "stamp_columns rt isUpdate cols en = foldl (stamp_column rt isUpdate) en cols"

definition stamp :: "runtime \<Rightarrow> bool \<Rightarrow> ColumnMetadata list \<Rightarrow> addr \<Rightarrow> unit action" where
  "stamp rt isUpdate cols a =
     then_do (getEntity a)
       (\<lambda>e s. let (ps, n) = stamp_columns rt isUpdate cols (props e, ticks s)
               in setProps a ps (s\<lparr>ticks := n\<rparr>))"

text \<open>
  Step 4, second half: the foreign key of each owning to-one relation whose property
  is set is taken from the \<open>id\<close> property of the referenced object.
\<close>

definition inject_fk ::
  "addr \<Rightarrow> (string \<times> val) list \<Rightarrow> RelationMetadata \<Rightarrow> (string \<times> val) list action" where
  "inject_fk a entityToPersist relation =
     (if owning relation then
        then_do (readProp a (rel_propertyName relation))
          (\<lambda>relatedEntity.
             if truthy relatedEntity
             then then_do (read_id relatedEntity)
                    (\<lambda>i. ret (put entityToPersist (fkName relation) i))
             else ret entityToPersist)
      else ret entityToPersist)"

primrec inject_fks ::
  "addr \<Rightarrow> RelationMetadata list \<Rightarrow> (string \<times> val) list \<Rightarrow> (string \<times> val) list action" where
  "inject_fks a [] entityToPersist = ret entityToPersist"
| "inject_fks a (r # rs) entityToPersist =
     then_do (inject_fk a entityToPersist r) (inject_fks a rs)"

definition build_entityToPersist ::
  "runtime \<Rightarrow> ColumnMetadata list \<Rightarrow> RelationMetadata list \<Rightarrow> addr \<Rightarrow> (string \<times> val) list action" where
  "build_entityToPersist rt cols rels a =
     then_do (getEntity a) (\<lambda>e. inject_fks a rels (serialize_columns rt cols (props e)))"

text \<open>
  Step 5. The pseudo-column pushed onto \<open>allColumns\<close> for a foreign key that has a
  value, and the statement for the entity's own row.
\<close>

definition fk_column :: "target \<Rightarrow> string \<Rightarrow> ColumnMetadata" where
  "fk_column t fk =
     \<lparr>col_target = t, col_propertyName = fk,
      col_options = \<lparr>opt_name = Some fk, opt_type = None, opt_primary = False,
                     opt_generated = False, opt_nullable = None, opt_transformer = None\<rparr>,
      col_mode = None\<rparr>"

definition allColumns ::
  "target \<Rightarrow> ColumnMetadata list \<Rightarrow> RelationMetadata list \<Rightarrow> (string \<times> val) list \<Rightarrow> ColumnMetadata list" where
  "allColumns t cols rels entityToPersist =
     cols @ map (\<lambda>r. fk_column t (fkName r))
                (filter (\<lambda>r. owning r \<and> get entityToPersist (fkName r) \<noteq> VUndef) rels)"

definition persist ::
  "runtime \<Rightarrow> EntityMetadata \<Rightarrow> ColumnMetadata list \<Rightarrow> RelationMetadata list \<Rightarrow> string option
     \<Rightarrow> bool \<Rightarrow> addr \<Rightarrow> (string \<times> val) list \<Rightarrow> unit action" where
  "persist rt table cols rels pkName isUpdate a entityToPersist =
     (if isUpdate then
        then_do (getEntity a)
          (\<lambda>e. let criteria = (case pkName of
                                 None \<Rightarrow> []
                               | Some p \<Rightarrow> if p = [] then [] else [(p, get (props e) p)])
                in then_do (lift (SqlGenerator_update (date_string rt) table entityToPersist (Some criteria)))
                     (\<lambda>q. then_do (query rt q) (\<lambda>res. ret ())))
      else
        then_do (query rt (SqlGenerator_insert table
                             (allColumns (tbl_target table) cols rels entityToPersist) entityToPersist))
          (\<lambda>res. then_do (lift (member res ''insertId''))
             (\<lambda>insertId. case pkName of
                            None \<Rightarrow> ret ()
                          | Some p \<Rightarrow> if truthy insertId \<and> p \<noteq> [] then writeProp a p insertId
                                      else ret ())))"

text \<open>
  Step 7: the children of a cascading one-to-many or non-owning one-to-one relation
  get the parent assigned to their inverse property and are saved.
\<close>

definition inversePropName :: "RelationMetadata \<Rightarrow> string" where
  "inversePropName relation =
     (case inverseSide relation of
        None \<Rightarrow> []
      | Some (InverseName n) \<Rightarrow> n
      | Some (InverseFn r) \<Rightarrow> (case r of None \<Rightarrow> [] | Some n \<Rightarrow> n))"

definition save_child ::
  "(addr \<Rightarrow> unit action) \<Rightarrow> addr \<Rightarrow> RelationMetadata \<Rightarrow> val \<Rightarrow> unit action" where
  "save_child rec a relation child =
     (if inversePropName relation \<noteq> [] then
        (case child of
           VRef b \<Rightarrow> then_do (writeProp b (inversePropName relation) (VRef a)) (\<lambda>_. rec b)
         | VArr xs \<Rightarrow> throw (Error ''Entity not found in metadata'')
         | VObj kvs \<Rightarrow> throw (Error ''Entity not found in metadata'')
         | VDate d \<Rightarrow> throw (Error ''Entity not found in metadata'')
         | _ \<Rightarrow> throw TypeError)
      else ret ())"

definition cascade_children ::
  "(addr \<Rightarrow> unit action) \<Rightarrow> bool \<Rightarrow> addr \<Rightarrow> RelationMetadata \<Rightarrow> unit action" where
  "cascade_children rec isUpdate a relation =
     (if cascades relation isUpdate then
        (if relationType relation = OneToMany then
           then_do (readProp a (rel_propertyName relation))
             (\<lambda>children. case children of
                            VArr xs \<Rightarrow> for_each xs (save_child rec a relation)
                          | _ \<Rightarrow> ret ())
         else if relationType relation = OneToOne \<and> \<not> joinColumn relation then
           then_do (readProp a (rel_propertyName relation))
             (\<lambda>child. if truthy child then save_child rec a relation child else ret ())
         else ret ())
      else ret ())"

text \<open>
  Step 8: the items of a many-to-many relation are saved when the relation cascades,
  and one junction row is inserted per item; a rejected junction insert is ignored.
\<close>

definition insert_junction_row ::
  "runtime \<Rightarrow> string \<Rightarrow> string option \<Rightarrow> addr \<Rightarrow> val \<Rightarrow> unit action" where
  "insert_junction_row rt junctionTableName pkName a item =
     then_do (read_id item)
       (\<lambda>relatedId.
          then_do (readProp a (case pkName of None \<Rightarrow> ''id'' | Some p \<Rightarrow> if p = [] then ''id'' else p))
            (\<lambda>ownerId.
               if truthy relatedId \<and> truthy ownerId then
                 (\<lambda>s. case query rt (SqlGenerator_insertJunction junctionTableName ownerId relatedId) s of
                        (Throw e, s') \<Rightarrow> (Done (), s')
                      | (r, s') \<Rightarrow> (Done (), s'))
               else ret ()))"

definition many_to_many ::
  "runtime \<Rightarrow> (addr \<Rightarrow> unit action) \<Rightarrow> EntityMetadata \<Rightarrow> string option \<Rightarrow> bool \<Rightarrow> addr
     \<Rightarrow> RelationMetadata \<Rightarrow> unit action" where
  "many_to_many rt rec table pkName isUpdate a relation =
     (if relationType relation = ManyToMany then
        then_do (readProp a (rel_propertyName relation))
          (\<lambda>relatedItems.
             case relatedItems of
               VArr items \<Rightarrow>
                 then_do (if cascades relation isUpdate then for_each items (save_value rec) else ret ())
                   (\<lambda>_. if items \<noteq> [] then
                           (case relatedTable (storage rt) relation of
                              None \<Rightarrow> ret ()
                            | Some rtab \<Rightarrow>
                                for_each items
                                  (insert_junction_row rt
                                     (or_else (joinTableName relation)
                                              (tableName table @ ''_'' @ tableName rtab))
                                     pkName a))
                         else ret ())
             | _ \<Rightarrow> ret ())
      else ret ())"

text \<open>The primary-key property and the classification of a save.\<close>

definition pkName_of :: "MetadataArgsStorage \<Rightarrow> target \<Rightarrow> string option" where
  "pkName_of st t =
     map_option col_propertyName (find (\<lambda>c. opt_primary (col_options c)) (findColumns st t))"

definition is_update :: "string option \<Rightarrow> (string \<times> val) list \<Rightarrow> bool" where
  "is_update pkName ps = (case pkName of None \<Rightarrow> False | Some p \<Rightarrow> p \<noteq> [] \<and> truthy (get ps p))"

definition save_body :: "runtime \<Rightarrow> (addr \<Rightarrow> unit action) \<Rightarrow> addr \<Rightarrow> unit action" where
  "save_body rt rec a =
     then_do (getEntity a)
       (\<lambda>e. case findTable (storage rt) (cls e) of
               None \<Rightarrow> throw (Error ''Entity not found in metadata'')
             | Some table \<Rightarrow>
                 (let pkName = pkName_of (storage rt) (cls e);
                      isUpdate = is_update pkName (props e);
                      rels = findRelations (storage rt) (cls e);
                      cols = findColumns (storage rt) (cls e)
                  in then_do (for_each rels (cascade_owner rec isUpdate a)) (\<lambda>_.
                     then_do (run_listeners rt (cls e) (if isUpdate then BeforeUpdate else BeforeInsert) a) (\<lambda>_.
                     then_do (stamp rt isUpdate cols a) (\<lambda>_.
                     then_do (build_entityToPersist rt cols rels a) (\<lambda>entityToPersist.
                     then_do (persist rt table cols rels pkName isUpdate a entityToPersist) (\<lambda>_.
                     then_do (run_listeners rt (cls e) (if isUpdate then AfterUpdate else AfterInsert) a) (\<lambda>_.
                     then_do (for_each rels (cascade_children rec isUpdate a)) (\<lambda>_.
                     for_each rels (many_to_many rt rec table pkName isUpdate a))))))))))"

text \<open>
  \<open>save\<close> calls itself on related objects, and two relations that cascade into each
  other make it call itself without end; the recursion is given fuel.
\<close>

fun save :: "nat \<Rightarrow> runtime \<Rightarrow> addr \<Rightarrow> unit action" where
  "save 0 rt a = (\<lambda>s. (OutOfFuel, s))"
| "save (Suc n) rt a = save_body rt (save n rt) a"


section \<open>DataSource.update and DataSource.delete\<close>

text \<open>
  \<open>const { query, params } = SqlGenerator...; await this.query(query, params)\<close>: an
  exception of the generator propagates before anything is sent.
\<close>

definition execute :: "runtime \<Rightarrow> error + stmt \<Rightarrow> unit action" where
  "execute rt generated = then_do (lift generated) (\<lambda>q. then_do (query rt q) (\<lambda>_. ret ()))"

definition update_dates ::
  "runtime \<Rightarrow> ColumnMetadata list \<Rightarrow> (string \<times> val) list \<times> nat \<Rightarrow> (string \<times> val) list \<times> nat" where
  "update_dates rt cols en =
     foldl (\<lambda>(pe, n) col. if col_mode col = Some UpdateDate
                            then (put pe (col_propertyName col) (VDate (clock rt n)), Suc n)
                            else (pe, n)) en cols"

definition apply_transformers ::
  "ColumnMetadata list \<Rightarrow> (string \<times> val) list \<Rightarrow> (string \<times> val) list" where
  "apply_transformers cols partialEntity =
     foldl (\<lambda>etp col. case opt_transformer (col_options col) of
                         None \<Rightarrow> etp
                       | Some t \<Rightarrow>
                           if get partialEntity (col_propertyName col) \<noteq> VUndef
                           then put etp (col_propertyName col)
                                  (transform_to t (get partialEntity (col_propertyName col)))
                           else etp) partialEntity cols"

definition DataSource_update ::
  "runtime \<Rightarrow> target \<Rightarrow> filter option \<Rightarrow> (string \<times> val) list \<Rightarrow> unit action" where
  "DataSource_update rt t criteria partialEntity =
     (case findTable (storage rt) t of
        None \<Rightarrow> throw (Error ''Entity not found in metadata'')
      | Some table \<Rightarrow>
          (\<lambda>s. let cols = findColumns (storage rt) t;
                    (pe, n) = update_dates rt cols (partialEntity, ticks s)
                in execute rt (SqlGenerator_update (date_string rt) table
                                 (apply_transformers cols pe) criteria)
                     (s\<lparr>ticks := n\<rparr>)))"

definition DataSource_delete :: "runtime \<Rightarrow> target \<Rightarrow> filter option \<Rightarrow> unit action" where
  "DataSource_delete rt t criteria =
     (case findTable (storage rt) t of
        None \<Rightarrow> throw (Error ''Entity not found in metadata'')
      | Some table \<Rightarrow>
          (case find (\<lambda>c. col_mode c = Some DeleteDate) (findColumns (storage rt) t) of
             Some deleteDateColumn \<Rightarrow>
               then_do (new_date rt)
                 (\<lambda>d. execute rt
                        (SqlGenerator_update (date_string rt) table
                           [(col_propertyName deleteDateColumn,
                             (case opt_transformer (col_options deleteDateColumn) of
                                None \<Rightarrow> d
                              | Some t \<Rightarrow> transform_to t d))]
                           criteria))
           | None \<Rightarrow> execute rt (SqlGenerator_delete (date_string rt) table criteria)))"

section \<open>DataSource.mapResults\<close>

text \<open>
  A row is an object from column alias to raw value; the raw values are primitives
  (numbers, strings, \<open>null\<close>), for which \<open>===\<close> and the key comparison of a
  \<open>Map\<close> are equality. A materialized object is a fresh instance with the properties
  the loop assigns. The result carries, next to the objects, the listener calls made:
  the key of the root and the name of the method, in call order.
\<close>

type_synonym row = "(string \<times> val) list"

definition pk_column :: "ColumnMetadata list \<Rightarrow> ColumnMetadata option" where
  "pk_column cols =
     (case find (\<lambda>c. opt_primary (col_options c)) cols of
        Some c \<Rightarrow> Some c
      | None \<Rightarrow> (case cols of [] \<Rightarrow> None | c # _ \<Rightarrow> Some c))"

definition to_many :: "RelationMetadata \<Rightarrow> bool" where
  "to_many r = (relationType r = OneToMany \<or> relationType r = ManyToMany)"

text \<open>The loop \<open>for (const col of columns)\<close> that fills an object from the aliases of a row.\<close>

definition read_column ::
  "runtime \<Rightarrow> (string \<Rightarrow> string) \<Rightarrow> row \<Rightarrow> (string \<times> val) list \<Rightarrow> ColumnMetadata
     \<Rightarrow> (string \<times> val) list" where
  "read_column rt alias r e col =
     (let v = get r (alias (columnName col))
      in if v \<noteq> VUndef then put e (col_propertyName col) (transformValue rt col v) else e)"

definition read_columns ::
  "runtime \<Rightarrow> ColumnMetadata list \<Rightarrow> (string \<Rightarrow> string) \<Rightarrow> row \<Rightarrow> (string \<times> val) list" where
  "read_columns rt cols alias r = foldl (read_column rt alias r) [] cols"

definition new_root ::
  "runtime \<Rightarrow> target \<Rightarrow> ColumnMetadata list \<Rightarrow> string list \<Rightarrow> row \<Rightarrow> (string \<times> val) list" where
  "new_root rt t cols rels r =
     foldl (\<lambda>e relationName.
              case find_relation (storage rt) t relationName of
                None \<Rightarrow> e
              | Some relation \<Rightarrow> put e relationName (if to_many relation then VArr [] else VNull))
           (read_columns rt cols (\<lambda>c. c) r) rels"

definition has_key :: "string \<Rightarrow> val \<Rightarrow> val \<Rightarrow> bool" where
  "has_key p k e = (member e p = Inr k)"

definition attach_relation ::
  "runtime \<Rightarrow> target \<Rightarrow> row \<Rightarrow> (string \<times> val) list \<Rightarrow> string \<Rightarrow> error + (string \<times> val) list" where
  "attach_relation rt t r e relationName =
     (case find_relation (storage rt) t relationName of
        None \<Rightarrow> Inr e
      | Some relation \<Rightarrow>
          (case pk_column (relatedColumns (storage rt) relation) of
             None \<Rightarrow> Inl TypeError
           | Some relatedPkCol \<Rightarrow>
               (let relatedPkValue = get r (relationName @ ''_'' @ columnName relatedPkCol) in
                if relatedPkValue \<noteq> VUndef \<and> relatedPkValue \<noteq> VNull then
                  (let relatedEntity =
                         VObj (read_columns rt (relatedColumns (storage rt) relation)
                                 (\<lambda>c. relationName @ ''_'' @ c) r)
                   in if to_many relation then
                        (case get e relationName of
                           VArr xs \<Rightarrow>
                             (case find (has_key (col_propertyName relatedPkCol) relatedPkValue) xs of
                                None \<Rightarrow> Inr (put e relationName (VArr (xs @ [relatedEntity])))
                              | Some existing \<Rightarrow> Inr e)
                         | _ \<Rightarrow> Inl TypeError)
                      else Inr (put e relationName relatedEntity))
                else Inr e)))"

fun attach_relations ::
  "runtime \<Rightarrow> target \<Rightarrow> row \<Rightarrow> string list \<Rightarrow> (string \<times> val) list \<Rightarrow> error + (string \<times> val) list" where
  "attach_relations rt t r [] e = Inr e"
| "attach_relations rt t r (relationName # rels) e =
     (case attach_relation rt t r e relationName of
        Inl err \<Rightarrow> Inl err
      | Inr e' \<Rightarrow> attach_relations rt t r rels e')"

text \<open>The \<open>Map\<close> from key to root object, in insertion order.\<close>

type_synonym entityMap = "(val \<times> (string \<times> val) list) list"

fun map_set :: "entityMap \<Rightarrow> val \<Rightarrow> (string \<times> val) list \<Rightarrow> entityMap" where
  "map_set [] k e = [(k, e)]"
| "map_set ((k', e') # m) k e = (if k' = k then (k, e) # m else (k', e') # map_set m k e)"

definition map_row ::
  "runtime \<Rightarrow> target \<Rightarrow> ColumnMetadata list \<Rightarrow> string \<Rightarrow> string list \<Rightarrow> entityMap \<Rightarrow> row
     \<Rightarrow> error + entityMap" where
  "map_row rt t cols pkName rels m r =
     (let pkValue = get r pkName in
      if pkValue = VUndef \<or> pkValue = VNull then Inr m
      else (case attach_relations rt t r rels
                   (case map_of m pkValue of
                      Some e \<Rightarrow> e
                    | None \<Rightarrow> new_root rt t cols rels r) of
              Inl err \<Rightarrow> Inl err
            | Inr e \<Rightarrow> Inr (map_set m pkValue e)))"

fun map_rows ::
  "runtime \<Rightarrow> target \<Rightarrow> ColumnMetadata list \<Rightarrow> string \<Rightarrow> string list \<Rightarrow> entityMap \<Rightarrow> row list
     \<Rightarrow> error + entityMap" where
  "map_rows rt t cols pkName rels m [] = Inr m"
| "map_rows rt t cols pkName rels m (r # rs) =
     (case map_row rt t cols pkName rels m r of
        Inl err \<Rightarrow> Inl err
      | Inr m' \<Rightarrow> map_rows rt t cols pkName rels m' rs)"

text \<open>The \<open>AfterLoad\<close> listeners on one root, and on the roots in map order.\<close>

fun after_load ::
  "runtime \<Rightarrow> target \<Rightarrow> EntityListenerMetadata list \<Rightarrow> val \<Rightarrow> (string \<times> val) list
     \<Rightarrow> error + ((string \<times> val) list \<times> (val \<times> string) list)" where
  "after_load rt t [] k e = Inr (e, [])"
| "after_load rt t (l # ls) k e =
     (if lis_propertyName l \<in> fst ` set e then after_load rt t ls k e
      else (case methods rt t (lis_propertyName l) of
              None \<Rightarrow> after_load rt t ls k e
            | Some body \<Rightarrow>
                (case body e of
                   Inl err \<Rightarrow> Inl err
                 | Inr e' \<Rightarrow>
                     (case after_load rt t ls k e' of
                        Inl err \<Rightarrow> Inl err
                      | Inr (e'', calls) \<Rightarrow> Inr (e'', (k, lis_propertyName l) # calls)))))"

fun after_load_all ::
  "runtime \<Rightarrow> target \<Rightarrow> EntityListenerMetadata list \<Rightarrow> entityMap
     \<Rightarrow> error + ((string \<times> val) list list \<times> (val \<times> string) list)" where
  "after_load_all rt t ls [] = Inr ([], [])"
| "after_load_all rt t ls ((k, e) # m) =
     (case after_load rt t ls k e of
        Inl err \<Rightarrow> Inl err
      | Inr (e', calls) \<Rightarrow>
          (case after_load_all rt t ls m of
             Inl err \<Rightarrow> Inl err
           | Inr (es, calls') \<Rightarrow> Inr (e' # es, calls @ calls')))"

definition mapResults ::
  "runtime \<Rightarrow> target \<Rightarrow> row list \<Rightarrow> string list
     \<Rightarrow> error + ((string \<times> val) list list \<times> (val \<times> string) list)" where
  "mapResults rt t results rels =
     (if results = [] then Inr ([], [])
      else (case pk_column (findColumns (storage rt) t) of
              None \<Rightarrow> Inl TypeError
            | Some pkColumn \<Rightarrow>
                (case map_rows rt t (findColumns (storage rt) t) (columnName pkColumn) rels [] results of
                   Inl err \<Rightarrow> Inl err
                 | Inr m \<Rightarrow> after_load_all rt t (findListeners (storage rt) t AfterLoad) m)))"


text \<open>
  Notions for stating what the row loop guarantees: the keys of the rows that have one,
  the first row with a given key, a map whose roots carry the columns of the first row
  of their key, and a relation array whose elements have pairwise distinct keys.
\<close>

definition row_keys :: "string \<Rightarrow> row list \<Rightarrow> val list" where
  "row_keys pk rows = filter (\<lambda>k. k \<noteq> VUndef \<and> k \<noteq> VNull) (map (\<lambda>r. get r pk) rows)"

definition first_row :: "string \<Rightarrow> val \<Rightarrow> row list \<Rightarrow> row option" where
  "first_row pk k rows = find (\<lambda>r. get r pk = k) rows"

definition from_first_rows ::
  "runtime \<Rightarrow> ColumnMetadata list \<Rightarrow> string \<Rightarrow> string list \<Rightarrow> row list \<Rightarrow> entityMap \<Rightarrow> bool" where
  "from_first_rows rt cols pk rels rows m =
     (\<forall>(k, e) \<in> set m. \<exists>r. first_row pk k rows = Some r
         \<and> (\<forall>p. p \<notin> set rels \<longrightarrow> get e p = get (read_columns rt cols (\<lambda>c. c) r) p))"

definition distinct_keys :: "string \<Rightarrow> string \<Rightarrow> (string \<times> val) list \<Rightarrow> bool" where
  "distinct_keys relationName p e =
     (case get e relationName of VArr xs \<Rightarrow> distinct (map (\<lambda>x. member x p) xs) | _ \<Rightarrow> False)"

section \<open>Registration (decorators.ts) and an example registry\<close>

text \<open>The descriptor each decorator pushes onto the registry.\<close>

definition no_options :: ColumnOptions where
  "no_options = \<lparr>opt_name = None, opt_type = None, opt_primary = False, opt_generated = False,
                  opt_nullable = None, opt_transformer = None\<rparr>"

definition Column :: "target \<Rightarrow> string \<Rightarrow> ColumnOptions \<Rightarrow> ColumnMetadata" where
  "Column t p opts = \<lparr>col_target = t, col_propertyName = p, col_options = opts, col_mode = None\<rparr>"

definition PrimaryGeneratedColumn :: "target \<Rightarrow> string \<Rightarrow> ColumnMetadata" where
  "PrimaryGeneratedColumn t p =
     \<lparr>col_target = t, col_propertyName = p,
      col_options = no_options\<lparr>opt_primary := True, opt_generated := True, opt_type := Some Integer\<rparr>,
      col_mode = None\<rparr>"

definition CreateDateColumn :: "target \<Rightarrow> string \<Rightarrow> ColumnMetadata" where
  "CreateDateColumn t p =
     \<lparr>col_target = t, col_propertyName = p, col_options = no_options\<lparr>opt_type := Some DateTime\<rparr>,
      col_mode = Some CreateDate\<rparr>"

definition UpdateDateColumn :: "target \<Rightarrow> string \<Rightarrow> ColumnMetadata" where
  "UpdateDateColumn t p =
     \<lparr>col_target = t, col_propertyName = p, col_options = no_options\<lparr>opt_type := Some DateTime\<rparr>,
      col_mode = Some UpdateDate\<rparr>"

definition DeleteDateColumn :: "target \<Rightarrow> string \<Rightarrow> ColumnMetadata" where
  "DeleteDateColumn t p =
     \<lparr>col_target = t, col_propertyName = p,
      col_options = no_options\<lparr>opt_type := Some DateTime, opt_nullable := Some True\<rparr>,
      col_mode = Some DeleteDate\<rparr>"

definition VersionColumn :: "target \<Rightarrow> string \<Rightarrow> ColumnMetadata" where
  "VersionColumn t p =
     \<lparr>col_target = t, col_propertyName = p, col_options = no_options\<lparr>opt_type := Some Integer\<rparr>,
      col_mode = Some Version\<rparr>"

definition Entity :: "target \<Rightarrow> string \<Rightarrow> EntityMetadata" where
  "Entity t n = \<lparr>tbl_target = t, tbl_name = n, tableName = n\<rparr>"

definition Relation ::
  "RelationType \<Rightarrow> target \<Rightarrow> string \<Rightarrow> target \<Rightarrow> inverse_side option \<Rightarrow> RelationOptions option
     \<Rightarrow> RelationMetadata" where
  "Relation kind t p related inverseSideArg opts =
     \<lparr>rel_target = t, rel_propertyName = p, relationType = kind,
      rel_type = TypeThunk (Some related), inverseSide = inverseSideArg, rel_options = opts,
      joinTable = False, joinTableName = None, joinColumn = False, joinColumnName = None\<rparr>"

text \<open>
  A small registry: users (class 2) with posts (class 3), posts with an author and with
  tags (class 4) through a junction table, and notes (class 5) of a user, whose primary
  column is read through a transformer. A tag lists its posts although no post points
  back at a tag, and the drafts of a user are of a class (6) that is not registered.
\<close>

definition cascade_all :: "RelationOptions option" where
  "cascade_all = Some \<lparr>onDelete = None, cascade = Some (CascadeAll True)\<rparr>"

definition as_text :: ValueTransformer where
  "as_text = \<lparr>transform_to = (\<lambda>v. v),
              transform_from = (\<lambda>v. case v of VNum n \<Rightarrow> VStr (show_int n) | _ \<Rightarrow> v)\<rparr>"

definition blog :: MetadataArgsStorage where
  "blog =
     \<lparr>columns =
        [PrimaryGeneratedColumn 2 ''id'',
         Column 2 ''name'' (no_options\<lparr>opt_type := Some String\<rparr>),
         CreateDateColumn 2 ''createdAt'',
         UpdateDateColumn 2 ''updatedAt'',
         VersionColumn 2 ''version'',
         DeleteDateColumn 2 ''deletedAt'',
         PrimaryGeneratedColumn 3 ''id'',
         Column 3 ''title'' (no_options\<lparr>opt_type := Some String\<rparr>),
         PrimaryGeneratedColumn 4 ''id'',
         Column 4 ''label'' (no_options\<lparr>opt_type := Some String\<rparr>),
         Column 5 ''id'' (no_options\<lparr>opt_primary := True, opt_transformer := Some as_text\<rparr>),
         Column 5 ''body'' (no_options\<lparr>opt_type := Some String\<rparr>)],
      tables = [Entity 2 ''users'', Entity 3 ''posts'', Entity 4 ''tags'', Entity 5 ''notes''],
      relations =
        [Relation OneToMany 2 ''posts'' 3 (Some (InverseName ''author'')) cascade_all,
         Relation OneToMany 2 ''notes'' 5 (Some (InverseName ''owner'')) None,
         Relation ManyToOne 3 ''author'' 2 None None,
         (Relation ManyToMany 3 ''tags'' 4 None None)\<lparr>joinTable := True\<rparr>,
         Relation ManyToOne 5 ''owner'' 2 None None,
         Relation OneToMany 4 ''posts'' 3 None None,
         Relation OneToMany 2 ''drafts'' 6 None None],
      entityListeners = [],
      joinTables = [\<lparr>jt_target = 3, jt_propertyName = ''tags'', jt_name = None\<rparr>]\<rparr>"

text \<open>
  A transport that accepts every statement and numbers the rows it inserts, and one
  that rejects the statements whose text is in a given list.
\<close>

definition accepting :: "stmt list \<Rightarrow> stmt \<Rightarrow> error + val" where
  "accepting seen q =
     Inr (VObj [(''insertId'', VNum (int (length seen) + 1)), (''rowsAffected'', VNum 1)])"

definition rejecting :: "string list \<Rightarrow> stmt list \<Rightarrow> stmt \<Rightarrow> error + val" where
  "rejecting bad seen q =
     (if fst q \<in> set bad then Inl (Error (''rejected: '' @ fst q)) else accepting seen q)"

definition example_runtime :: "(stmt list \<Rightarrow> stmt \<Rightarrow> error + val) \<Rightarrow> runtime" where
  "example_runtime drv =
     \<lparr>storage = blog, driver = drv, clock = (\<lambda>n. 1000 + int n),
      date_string = (\<lambda>d. ''Date('' @ show_int d @ '')''),
      iso_string = (\<lambda>d. ''ISO('' @ show_int d @ '')''),
      json_stringify = (\<lambda>v. VStr (to_str (\<lambda>d. show_int d) v)),
      json_parse = (\<lambda>s. None),
      date_parse = (\<lambda>s. VStr s),
      methods = (\<lambda>t m. None)\<rparr>"


definition empty_state :: state where
  "empty_state = \<lparr>heap = (\<lambda>a. None), executed = [], ticks = 0\<rparr>"





section \<open>The filter algebra\<close>

lemma condition_Not_node:
  "condition ds key (op_node NotOp inner) =
     (if inner = VNull then Inl TypeError else Inr (key @ '' != ?'', [inner]))"
  by (simp add: condition_def op_node_def get_def is_op_def)

text \<open>
  C1. A \<open>Not\<close> node that wraps an \<open>In\<close>, \<open>Like\<close> or \<open>IsNull\<close> node should
  produce \<open>NOT IN (?, ...)\<close>, \<open>NOT LIKE ?\<close> and \<open>IS NOT NULL\<close>. The members
  \<open>NotEqual\<close> and \<open>Not\<close> of \<open>OperatorType\<close> are both declared with the value
  \<open>NOT\<close>, and the \<open>switch\<close> reaches the label of \<open>NotEqual\<close> first: each of the
  three filters below produces \<open>!= ?\<close> with the wrapped node itself as the parameter.
\<close>

theorem Not_wrapping_operator_emits_not_equal:
  "buildConditions ds [(''age'', op_node NotOp (op_node In (VArr [VNum 1, VNum 2])))]
     = Inr (''age != ?'', [op_node In (VArr [VNum 1, VNum 2])])
   \<and> buildConditions ds [(''name'', op_node NotOp (op_node Like (VStr ''a%'')))]
     = Inr (''name != ?'', [op_node Like (VStr ''a%'')])
   \<and> buildConditions ds [(''deletedAt'', op_node NotOp (op_node IsNull VNull))]
     = Inr (''deletedAt != ?'', [op_node IsNull VNull])"
  unfolding buildConditions_def conditions.simps condition_Not_node
  by (simp add: op_node_def)

section \<open>Facts about the example registry\<close>

lemmas decorator_defs =
  PrimaryGeneratedColumn_def Column_def CreateDateColumn_def UpdateDateColumn_def
  VersionColumn_def DeleteDateColumn_def Entity_def Relation_def

lemma blog_findTable:
  "findTable blog 2 = Some (Entity 2 ''users'')"
  "findTable blog 3 = Some (Entity 3 ''posts'')"
  "findTable blog 4 = Some (Entity 4 ''tags'')"
  "findTable blog 5 = Some (Entity 5 ''notes'')"
  "findTable blog 6 = None"
  by (simp_all add: findTable_def blog_def Entity_def)

lemma blog_findColumns:
  "findColumns blog 2 =
     [PrimaryGeneratedColumn 2 ''id'', Column 2 ''name'' (no_options\<lparr>opt_type := Some String\<rparr>),
      CreateDateColumn 2 ''createdAt'', UpdateDateColumn 2 ''updatedAt'', VersionColumn 2 ''version'',
      DeleteDateColumn 2 ''deletedAt'']"
  "findColumns blog 3 =
     [PrimaryGeneratedColumn 3 ''id'', Column 3 ''title'' (no_options\<lparr>opt_type := Some String\<rparr>)]"
  "findColumns blog 4 =
     [PrimaryGeneratedColumn 4 ''id'', Column 4 ''label'' (no_options\<lparr>opt_type := Some String\<rparr>)]"
  "findColumns blog 5 =
     [Column 5 ''id'' (no_options\<lparr>opt_primary := True, opt_transformer := Some as_text\<rparr>),
      Column 5 ''body'' (no_options\<lparr>opt_type := Some String\<rparr>)]"
  by (simp_all add: findColumns_def blog_def decorator_defs)


section \<open>Helper lemmas\<close>

lemma join_Cons: "join sep (x # xs) = x @ (if xs = [] then [] else sep @ join sep xs)"
  by (cases xs) simp_all



lemma get_put: "get (put kvs k v) k' = (if k' = k then v else get kvs k')"
  by (induction kvs) (auto simp: get_def)


lemma buildConditions_empty: "buildConditions ds [] = Inr ([], [])"
  by (simp add: buildConditions_def)

lemma delete_empty_filter:
  "SqlGenerator_delete ds m (Some []) = Inr (''DELETE FROM '' @ tableName m @ '' WHERE '', [])"
  by (simp add: SqlGenerator_delete_def buildConditions_empty)

lemma update_empty_filter:
  "SqlGenerator_update ds m vals (Some [])
     = Inr (''UPDATE '' @ tableName m @ '' SET '' @ join '', '' (map (\<lambda>(key, v). key @ '' = ?'') vals)
              @ '' WHERE '', map snd vals)"
  by (simp add: SqlGenerator_update_def buildConditions_empty)

section \<open>The safety rail of delete and update\<close>

lemma absent_filter_is_rejected:
  "findTable (storage rt) t = Some table \<Longrightarrow>
   executed (snd (DataSource_delete rt t None s)) = executed s
   \<and> (\<exists>msg. fst (DataSource_delete rt t None s) = Throw (Error msg))
   \<and> executed (snd (DataSource_update rt t None pe s)) = executed s
   \<and> (\<exists>msg. fst (DataSource_update rt t None pe s) = Throw (Error msg))"
  by (auto simp: DataSource_delete_def DataSource_update_def SqlGenerator_delete_def SqlGenerator_update_def
      execute_def lift_def then_do_def throw_def new_date_def Let_def split: option.splits prod.splits)

text \<open>
  C2. \<open>delete\<close> and \<open>update\<close> should fail with a missing-where-clause error, and
  send no statement, when the filter is absent or has no keys. An absent filter is
  rejected (\<open>absent_filter_is_rejected\<close>). A filter object without keys passes the test
  \<open>if (where)\<close>: for every entity type the generator returns a statement that ends in
  \<open>WHERE\<close> with no condition after it, and \<open>DataSource.delete\<close> and
  \<open>DataSource.update\<close> hand that statement to the transport.
\<close>

theorem empty_filter_is_not_rejected:
  "SqlGenerator_delete ds m (Some []) = Inr (''DELETE FROM '' @ tableName m @ '' WHERE '', [])
   \<and> SqlGenerator_update ds m vals (Some [])
       = Inr (''UPDATE '' @ tableName m @ '' SET '' @ join '', '' (map (\<lambda>(key, v). key @ '' = ?'') vals)
                @ '' WHERE '', map snd vals)
   \<and> DataSource_delete (example_runtime accepting) 3 (Some []) empty_state
       = (Done (), empty_state\<lparr>executed := [(''DELETE FROM posts WHERE '', [])]\<rparr>)
   \<and> DataSource_update (example_runtime accepting) 3 (Some []) [(''title'', VStr ''x'')] empty_state
       = (Done (), empty_state\<lparr>executed := [(''UPDATE posts SET title = ? WHERE '', [VStr ''x''])]\<rparr>)"
proof -
  have dd: "DataSource_delete (example_runtime accepting) 3 (Some []) empty_state
       = (Done (), empty_state\<lparr>executed := [(''DELETE FROM posts WHERE '', [])]\<rparr>)"
    by (simp add: DataSource_delete_def example_runtime_def blog_findTable blog_findColumns
        delete_empty_filter execute_def lift_def then_do_def ret_def query_def accepting_def
        empty_state_def decorator_defs)
  have du: "DataSource_update (example_runtime accepting) 3 (Some []) [(''title'', VStr ''x'')] empty_state
       = (Done (), empty_state\<lparr>executed := [(''UPDATE posts SET title = ? WHERE '', [VStr ''x''])]\<rparr>)"
    by (simp add: DataSource_update_def example_runtime_def blog_findTable blog_findColumns
        update_empty_filter execute_def lift_def then_do_def ret_def query_def accepting_def
        empty_state_def decorator_defs update_dates_def apply_transformers_def no_options_def)
  from delete_empty_filter update_empty_filter dd du show ?thesis by blast
qed

section \<open>Soft-delete filtering in SELECT\<close>

text \<open>
  C6. Let the caller's filter compile to the clauses \<open>userClauses\<close> (none, or the one
  clause of \<open>buildConditions\<close>). With \<open>withDeleted\<close> set, the \<open>WHERE\<close> clause holds
  the caller's clauses only. With \<open>withDeleted\<close> not set and a soft-delete column
  \<open>c\<close> on the primary table, the condition \<open>table.c IS NULL\<close> comes first and the
  caller's clauses are joined to it with \<open>AND\<close>; without a soft-delete column the
  statement is the one generated with \<open>withDeleted\<close> set. The parameters are the same
  in all cases.
\<close>

theorem select_soft_delete_filter:
  assumes "where_clauses ds wh = Inr (userClauses, params)"
  shows "SqlGenerator_select ds st m wh rels ord lim off sel True =
           Inr (select_from st m rels sel
                  @ (if userClauses = [] then [] else '' WHERE '' @ join '' AND '' userClauses)
                  @ select_tail ord lim off, params)
       \<and> (\<forall>c. find (\<lambda>c. col_mode c = Some DeleteDate) (findColumns st (tbl_target m)) = Some c \<longrightarrow>
            SqlGenerator_select ds st m wh rels ord lim off sel False =
              Inr (select_from st m rels sel
                     @ '' WHERE '' @ tableName m @ ''.'' @ columnName c @ '' IS NULL''
                     @ (if userClauses = [] then [] else '' AND '' @ join '' AND '' userClauses)
                     @ select_tail ord lim off, params))
       \<and> (find (\<lambda>c. col_mode c = Some DeleteDate) (findColumns st (tbl_target m)) = None \<longrightarrow>
            SqlGenerator_select ds st m wh rels ord lim off sel False =
            SqlGenerator_select ds st m wh rels ord lim off sel True)"
  using assms
  by (simp add: SqlGenerator_select_def soft_delete_clauses_def join_Cons)

theorem select_soft_delete_filter_witness:
  "where_clauses (\<lambda>d. []) (Some [(''name'', VStr ''x'')]) = Inr ([''name = ?''], [VStr ''x''])
   \<and> SqlGenerator_select (\<lambda>d. []) blog (Entity 2 ''users'') (Some [(''name'', VStr ''x'')]) [] None None None None False
       = Inr (''SELECT users.* FROM users WHERE users.deletedAt IS NULL AND name = ?'', [VStr ''x''])
   \<and> SqlGenerator_select (\<lambda>d. []) blog (Entity 2 ''users'') (Some [(''name'', VStr ''x'')]) [] None None None None True
       = Inr (''SELECT users.* FROM users WHERE name = ?'', [VStr ''x''])
   \<and> SqlGenerator_select (\<lambda>d. []) blog (Entity 3 ''posts'') (Some [(''name'', VStr ''x'')]) [] None None None None False
       = Inr (''SELECT posts.* FROM posts WHERE name = ?'', [VStr ''x''])"
proof -
  have w: "where_clauses (\<lambda>d. []) (Some [(''name'', VStr ''x'')]) = Inr ([''name = ?''], [VStr ''x''])"
    by (simp add: where_clauses_def buildConditions_def condition_def)
  have c1: "find (\<lambda>c. col_mode c = Some DeleteDate) (findColumns blog (tbl_target (Entity 2 ''users'')))
              = Some (DeleteDateColumn 2 ''deletedAt'')"
    by (simp add: blog_findColumns Entity_def) (simp add: decorator_defs)
  have c2: "find (\<lambda>c. col_mode c = Some DeleteDate) (findColumns blog (tbl_target (Entity 3 ''posts''))) = None"
    by (simp add: blog_findColumns Entity_def) (simp add: decorator_defs)
  have n: "columnName (DeleteDateColumn 2 ''deletedAt'') = ''deletedAt''"
    by (simp add: columnName_def DeleteDateColumn_def no_options_def or_else_def)
  have f: "\<And>t n. select_from blog (Entity t n) [] None = ''SELECT '' @ n @ ''.* FROM '' @ n"
    by (simp add: select_from_def Entity_def)
  have t: "select_tail None None None = []"
    by (simp add: select_tail_def)
  from select_soft_delete_filter [OF w, of blog "Entity 2 ''users''" "[]" None None None None]
       select_soft_delete_filter [OF w, of blog "Entity 3 ''posts''" "[]" None None None None]
       w c1 c2 n f t
  show ?thesis by (simp add: Entity_def)
qed

section \<open>The foreign key of a one-to-many join\<close>



section \<open>The transaction wrapper\<close>

text \<open>
  C9, as stated: when the callback completes its result is returned, and when it throws
  the original error is re-thrown unchanged. The statements \<open>COMMIT\<close> and
  \<open>ROLLBACK\<close> go through the same transport as every other statement and may be
  rejected. A callback that completes with 42 on a transport that rejects \<open>COMMIT\<close>
  does not get its result returned: the rejection is caught, \<open>ROLLBACK\<close> is issued and
  the rejection is thrown. A callback that throws on a transport that rejects
  \<open>ROLLBACK\<close> has its error replaced by the rejection.
\<close>

theorem transaction_control_statement_rejected:
  "transaction (example_runtime (rejecting [''COMMIT''])) (ret (VNum 42)) empty_state
     = (Throw (Error ''rejected: COMMIT''),
        empty_state\<lparr>executed := [(''BEGIN TRANSACTION'', []), (''COMMIT'', []), (''ROLLBACK'', [])]\<rparr>)
   \<and> transaction (example_runtime (rejecting [''ROLLBACK''])) (throw (Error ''boom'')) empty_state
     = (Throw (Error ''rejected: ROLLBACK''),
        empty_state\<lparr>executed := [(''BEGIN TRANSACTION'', []), (''ROLLBACK'', [])]\<rparr>)"
  by (simp add: transaction_def then_do_def query_def rollback_rethrow_def throw_def ret_def
      example_runtime_def rejecting_def accepting_def empty_state_def)

text \<open>
  C9, amended. Let the transport accept \<open>BEGIN TRANSACTION\<close>, and let the callback,
  started after it, issue the statements \<open>issued\<close> and end in the state \<open>s'\<close>. If
  the callback completes with \<open>result\<close> and the transport accepts \<open>COMMIT\<close>, the
  wrapper returns \<open>result\<close> and the statements are \<open>BEGIN TRANSACTION\<close>, then
  \<open>issued\<close>, then \<open>COMMIT\<close>. If the callback throws \<open>err\<close> and the transport
  accepts \<open>ROLLBACK\<close>, the wrapper throws \<open>err\<close> and the statements are
  \<open>BEGIN TRANSACTION\<close>, then \<open>issued\<close>, then \<open>ROLLBACK\<close>: the wrapper issues no
  \<open>COMMIT\<close>.
\<close>

theorem transaction_commit_or_rollback:
  assumes "driver rt (executed s) (''BEGIN TRANSACTION'', []) = Inr b"
    and "runInTransaction (s\<lparr>executed := executed s @ [(''BEGIN TRANSACTION'', [])]\<rparr>) = (r, s')"
    and "executed s' = executed s @ [(''BEGIN TRANSACTION'', [])] @ issued"
  shows "(\<forall>result c. r = Done result \<and> driver rt (executed s') (''COMMIT'', []) = Inr c \<longrightarrow>
            transaction rt runInTransaction s
              = (Done result, s'\<lparr>executed := executed s @ [(''BEGIN TRANSACTION'', [])] @ issued @ [(''COMMIT'', [])]\<rparr>))
       \<and> (\<forall>err c. r = Throw err \<and> driver rt (executed s') (''ROLLBACK'', []) = Inr c \<longrightarrow>
            transaction rt runInTransaction s
              = (Throw err, s'\<lparr>executed := executed s @ [(''BEGIN TRANSACTION'', [])] @ issued @ [(''ROLLBACK'', [])]\<rparr>))"
  using assms
  by (simp add: transaction_def then_do_def query_def rollback_rethrow_def throw_def)

theorem transaction_commit_or_rollback_witness:
  "transaction (example_runtime accepting)
     (then_do (query (example_runtime accepting) (''DELETE FROM posts WHERE id = ?'', [VNum 1]))
        (\<lambda>_. ret (VNum 42))) empty_state
     = (Done (VNum 42),
        empty_state\<lparr>executed := [(''BEGIN TRANSACTION'', []),
                                  (''DELETE FROM posts WHERE id = ?'', [VNum 1]),
                                  (''COMMIT'', [])]\<rparr>)
   \<and> transaction (example_runtime accepting)
       (then_do (query (example_runtime accepting) (''DELETE FROM posts WHERE id = ?'', [VNum 1]))
          (\<lambda>_. throw (Error ''boom''))) empty_state
     = (Throw (Error ''boom''),
        empty_state\<lparr>executed := [(''BEGIN TRANSACTION'', []),
                                  (''DELETE FROM posts WHERE id = ?'', [VNum 1]),
                                  (''ROLLBACK'', [])]\<rparr>)"
proof -
  let ?rt = "example_runtime accepting"
  let ?q = "(''DELETE FROM posts WHERE id = ?'', [VNum 1])"
  let ?s1 = "empty_state\<lparr>executed := [(''BEGIN TRANSACTION'', []), ?q]\<rparr>"
  have b: "driver ?rt (executed empty_state) (''BEGIN TRANSACTION'', [])
             = Inr (VObj [(''insertId'', VNum 1), (''rowsAffected'', VNum 1)])"
    by (simp add: example_runtime_def accepting_def empty_state_def)
  have c: "\<And>q. driver ?rt (executed ?s1) q
             = Inr (VObj [(''insertId'', VNum 3), (''rowsAffected'', VNum 1)])"
    by (simp add: example_runtime_def accepting_def empty_state_def)
  have run1: "then_do (query ?rt ?q) (\<lambda>_. ret (VNum 42))
                (empty_state\<lparr>executed := executed empty_state @ [(''BEGIN TRANSACTION'', [])]\<rparr>)
              = (Done (VNum 42), ?s1)"
    by (simp add: then_do_def query_def ret_def example_runtime_def accepting_def empty_state_def)
  have run2: "then_do (query ?rt ?q) (\<lambda>_. throw (Error ''boom''))
                (empty_state\<lparr>executed := executed empty_state @ [(''BEGIN TRANSACTION'', [])]\<rparr>)
              = (Throw (Error ''boom''), ?s1)"
    by (simp add: then_do_def query_def throw_def example_runtime_def accepting_def empty_state_def)
  have i: "executed ?s1 = executed empty_state @ [(''BEGIN TRANSACTION'', [])] @ [?q]"
    by (simp add: empty_state_def)
  note ok = transaction_commit_or_rollback
               [where rt = ?rt and s = empty_state and s' = ?s1 and issued = "[?q]"
                  and runInTransaction = "then_do (query ?rt ?q) (\<lambda>_. ret (VNum 42))",
                OF b run1 i]
  note ko = transaction_commit_or_rollback
               [where rt = ?rt and s = empty_state and s' = ?s1 and issued = "[?q]"
                  and runInTransaction = "then_do (query ?rt ?q) (\<lambda>_. throw (Error ''boom''))",
                OF b run2 i]
  from conjunct1 [OF ok, rule_format, of "VNum 42"] conjunct2 [OF ko, rule_format, of "Error ''boom''"] c
  show ?thesis by (simp add: empty_state_def)
qed

section \<open>Transformers and the built-in serialization rules\<close>









section \<open>Stamping of the special columns\<close>








text \<open>The stamping step of \<open>save\<close> stores what the loop computes and advances the clock.\<close>

lemma stamp_step:
  "heap s a = Some ent \<Longrightarrow>
   stamp rt u cols a s =
     (Done (), s\<lparr>ticks := snd (stamp_columns rt u cols (props ent, ticks s)),
                 heap := (heap s)(a \<mapsto> ent\<lparr>props := fst (stamp_columns rt u cols (props ent, ticks s))\<rparr>)\<rparr>)"
  by (simp add: stamp_def then_do_def getEntity_def setProps_def split: prod.splits)




section \<open>The insert path and the update path of save\<close>








text \<open>
  The save of an entity whose type has no relations, in a registry without listeners, is
  the stamping, the serialization and the statement for the entity's own row; it returns
  with one unit of fuel.
\<close>

lemma then_do_ret: "then_do (m :: unit action) (\<lambda>_. ret ()) = m"
  by (auto simp: then_do_def ret_def fun_eq_iff split: prod.splits outcome.splits)

lemma then_do_ret_eta: "then_do (m :: unit action) ret = m"
  by (auto simp: then_do_def ret_def fun_eq_iff split: prod.splits outcome.splits)

lemma ret_then_do: "then_do (ret x) f = f x"
  by (simp add: then_do_def ret_def)

lemma save_of_plain_entity:
  assumes "heap s a = Some e" and "findTable (storage rt) (cls e) = Some table"
    and "findRelations (storage rt) (cls e) = []"
    and "entityListeners (storage rt) = []"
  shows "save (Suc n) rt a s =
           persist rt table (findColumns (storage rt) (cls e)) [] (pkName_of (storage rt) (cls e))
             (is_update (pkName_of (storage rt) (cls e)) (props e)) a
             (serialize_columns rt (findColumns (storage rt) (cls e))
                (fst (stamp_columns rt (is_update (pkName_of (storage rt) (cls e)) (props e))
                        (findColumns (storage rt) (cls e)) (props e, ticks s))))
             (s\<lparr>ticks := snd (stamp_columns rt (is_update (pkName_of (storage rt) (cls e)) (props e))
                                 (findColumns (storage rt) (cls e)) (props e, ticks s)),
                heap := (heap s)(a \<mapsto> e\<lparr>props :=
                          fst (stamp_columns rt (is_update (pkName_of (storage rt) (cls e)) (props e))
                                 (findColumns (storage rt) (cls e)) (props e, ticks s))\<rparr>)\<rparr>)"
proof -
  let ?pk = "pkName_of (storage rt) (cls e)"
  let ?u = "is_update ?pk (props e)"
  let ?cols = "findColumns (storage rt) (cls e)"
  let ?st = "stamp_columns rt ?u ?cols (props e, ticks s)"
  let ?s1 = "s\<lparr>ticks := snd ?st, heap := (heap s)(a \<mapsto> e\<lparr>props := fst ?st\<rparr>)\<rparr>"
  have l: "\<And>ty. run_listeners rt (cls e) ty a = ret ()"
    using assms(4) by (simp add: run_listeners_def findListeners_def)
  have g: "getEntity a s = (Done e, s)"
    using assms(1) by (simp add: getEntity_def)
  have b: "build_entityToPersist rt ?cols [] a ?s1 = (Done (serialize_columns rt ?cols (fst ?st)), ?s1)"
    by (simp add: build_entityToPersist_def then_do_def getEntity_def ret_def)
  have "save (Suc n) rt a s =
          then_do (stamp rt ?u ?cols a)
            (\<lambda>_. then_do (build_entityToPersist rt ?cols [] a)
               (\<lambda>entityToPersist. persist rt table ?cols [] ?pk ?u a entityToPersist)) s"
    using assms(2,3) g
    by (simp add: save_body_def Let_def l then_do_ret then_do_ret_eta ret_then_do
                  then_do_def [of "getEntity a"])
  also have "\<dots> = persist rt table ?cols [] ?pk ?u a (serialize_columns rt ?cols (fst ?st)) ?s1"
    using b by (simp add: then_do_def stamp_step [OF assms(1)])
  finally show ?thesis .
qed






section \<open>The key of the related table\<close>











section \<open>Materialization of joined rows\<close>

text \<open>
  The roots: one per key, in the order in which the keys are first seen, with the columns
  of the first row of their key.
\<close>

lemma map_set_keys:
  "map fst (map_set m k e) = (if k \<in> fst ` set m then map fst m else map fst m @ [k])"
  by (induction m) force+

lemma map_row_keys:
  assumes "map_row rt t cols pk rels m r = Inr m'"
  shows "map fst m' = (if get r pk = VUndef \<or> get r pk = VNull \<or> get r pk \<in> fst ` set m
                 then map fst m else map fst m @ [get r pk])"
proof (cases "get r pk = VUndef \<or> get r pk = VNull")
  case True
  with assms show ?thesis
    by (auto simp: map_row_def Let_def)
next
  case False
  with assms obtain e where "m' = map_set m (get r pk) e"
    by (auto simp: map_row_def Let_def split: sum.splits)
  with False show ?thesis
    by (simp add: map_set_keys)
qed

lemma map_rows_keys:
  "map_rows rt t cols pk rels m rows = Inr m' \<Longrightarrow>
   map fst m' = foldl (\<lambda>acc k. if k \<in> set acc then acc else acc @ [k]) (map fst m) (row_keys pk rows)"
proof (induction rows arbitrary: m)
  case Nil
  then show ?case by (simp add: row_keys_def)
next
  case (Cons r rows)
  from Cons.prems obtain m1 where m1: "map_row rt t cols pk rels m r = Inr m1"
    and rest: "map_rows rt t cols pk rels m1 rows = Inr m'"
    by (auto split: sum.splits)
  from Cons.IH [OF rest] map_row_keys [OF m1] show ?case
    by (auto simp: row_keys_def)
qed

lemma first_seen_set: "set (foldl (\<lambda>acc k. if k \<in> set acc then acc else acc @ [k]) acc ks) = set acc \<union> set ks"
  by (induction ks arbitrary: acc) auto

lemma first_seen_remdups:
  "foldl (\<lambda>acc k. if k \<in> set acc then acc else acc @ [k]) [] ks = rev (remdups (rev ks))"
  by (induction ks rule: rev_induct) (auto simp: first_seen_set)

lemma roots_in_first_seen_order:
  assumes "map_rows rt t cols pk rels [] rows = Inr m"
  shows "map fst m = rev (remdups (rev (row_keys pk rows)))" and "distinct (map fst m)"
proof -
  show "map fst m = rev (remdups (rev (row_keys pk rows)))"
    using map_rows_keys [OF assms] by (simp add: first_seen_remdups)
  then show "distinct (map fst m)" by simp
qed

lemma map_set_subset: "set (map_set m k e) \<subseteq> set m \<union> {(k, e)}"
  by (induction m) (auto split: if_splits)

lemma after_load_all_length:
  "after_load_all rt t ls m = Inr (es, calls) \<Longrightarrow> length es = length m"
  by (induction m arbitrary: es calls) (auto split: sum.splits prod.splits)

lemma attach_relation_other:
  "attach_relation rt t r e rn = Inr e' \<Longrightarrow> p \<noteq> rn \<Longrightarrow> get e' p = get e p"
  by (auto simp: attach_relation_def Let_def get_put split: option.splits if_splits val.splits)

lemma attach_relations_other:
  "attach_relations rt t r rels e = Inr e' \<Longrightarrow> p \<notin> set rels \<Longrightarrow> get e' p = get e p"
proof (induction rels arbitrary: e)
  case Nil
  then show ?case by simp
next
  case (Cons rn rels)
  from Cons.prems(1) obtain e1 where a: "attach_relation rt t r e rn = Inr e1"
    and b: "attach_relations rt t r rels e1 = Inr e'"
    by (auto split: sum.splits)
  from Cons.IH [OF b] attach_relation_other [OF a, of p] Cons.prems(2) show ?case
    by simp
qed

lemma new_root_other:
  "p \<notin> set rels \<Longrightarrow> get (new_root rt t cols rels r) p = get (read_columns rt cols (\<lambda>c. c) r) p"
proof -
  have "p \<notin> set rels \<Longrightarrow>
        get (foldl (\<lambda>e relationName.
              case find_relation (storage rt) t relationName of
                None \<Rightarrow> e
              | Some relation \<Rightarrow> put e relationName (if to_many relation then VArr [] else VNull))
           e0 rels) p = get e0 p" for e0
    by (induction rels arbitrary: e0) (auto simp: get_put split: option.splits)
  then show "p \<notin> set rels \<Longrightarrow> ?thesis"
    by (simp add: new_root_def)
qed

lemma first_row_append:
  "first_row pk k rows = Some r \<Longrightarrow> first_row pk k (rows @ rest) = Some r"
  by (induction rows) (auto simp: first_row_def)

lemma first_row_new:
  "first_row pk (get r pk) rows = None \<Longrightarrow> first_row pk (get r pk) (rows @ [r]) = Some r"
  by (induction rows) (auto simp: first_row_def split: if_splits)

lemma map_of_None_first_row:
  "fst ` set m = {k \<in> (\<lambda>r. get r pk) ` set rows. k \<noteq> VUndef \<and> k \<noteq> VNull} \<Longrightarrow>
   map_of m k = None \<Longrightarrow> k \<noteq> VUndef \<Longrightarrow> k \<noteq> VNull \<Longrightarrow> first_row pk k rows = None"
  by (auto simp: first_row_def find_None_iff map_of_eq_None_iff)

lemma map_set_keys_set: "fst ` set (map_set m k e) = insert k (fst ` set m)"
proof -
  have "fst ` set (map_set m k e) = set (map fst (map_set m k e))" by simp
  also have "\<dots> = insert k (fst ` set m)" by (auto simp: map_set_keys)
  finally show ?thesis .
qed

lemma map_row_first:
  assumes inv: "from_first_rows rt cols pk rels seen m"
    and keys: "fst ` set m = {k \<in> (\<lambda>r. get r pk) ` set seen. k \<noteq> VUndef \<and> k \<noteq> VNull}"
    and step: "map_row rt t cols pk rels m r = Inr m1"
  shows "from_first_rows rt cols pk rels (seen @ [r]) m1
       \<and> fst ` set m1 = {k \<in> (\<lambda>r. get r pk) ` set (seen @ [r]). k \<noteq> VUndef \<and> k \<noteq> VNull}"
proof -
  have old: "\<exists>r'. first_row pk k (seen @ [r]) = Some r'
         \<and> (\<forall>p. p \<notin> set rels \<longrightarrow> get e p = get (read_columns rt cols (\<lambda>c. c) r') p)"
    if "(k, e) \<in> set m" for k e
  proof -
    from inv that obtain r' where f: "first_row pk k seen = Some r'"
      and g: "\<forall>p. p \<notin> set rels \<longrightarrow> get e p = get (read_columns rt cols (\<lambda>c. c) r') p"
      unfolding from_first_rows_def by blast
    from first_row_append [OF f, of "[r]"] g show ?thesis by blast
  qed
  show ?thesis
  proof (cases "get r pk = VUndef \<or> get r pk = VNull")
    case True
    with step have m1: "m1 = m" by (auto simp: map_row_def Let_def)
    have "from_first_rows rt cols pk rels (seen @ [r]) m1"
      unfolding from_first_rows_def m1 using old by blast
    moreover have "fst ` set m1 = {k \<in> (\<lambda>r. get r pk) ` set (seen @ [r]). k \<noteq> VUndef \<and> k \<noteq> VNull}"
      unfolding m1 keys using True by auto
    ultimately show ?thesis by blast
  next
    case False
    let ?k = "get r pk"
    let ?e0 = "case map_of m ?k of Some e \<Rightarrow> e | None \<Rightarrow> new_root rt t cols rels r"
    from False step obtain e1 where at: "attach_relations rt t r rels ?e0 = Inr e1"
      and m1: "m1 = map_set m ?k e1"
      by (auto simp: map_row_def Let_def split: sum.splits)
    have new: "\<exists>r'. first_row pk ?k (seen @ [r]) = Some r'
           \<and> (\<forall>p. p \<notin> set rels \<longrightarrow> get e1 p = get (read_columns rt cols (\<lambda>c. c) r') p)"
    proof (cases "map_of m ?k")
      case None
      with keys False have "first_row pk ?k seen = None"
        by (auto intro: map_of_None_first_row)
      then have "first_row pk ?k (seen @ [r]) = Some r" by (rule first_row_new)
      moreover have "\<forall>p. p \<notin> set rels \<longrightarrow> get e1 p = get (read_columns rt cols (\<lambda>c. c) r) p"
        using at None by (simp add: attach_relations_other new_root_other)
      ultimately show ?thesis by blast
    next
      case (Some e)
      then have "(?k, e) \<in> set m" by (rule map_of_SomeD)
      from old [OF this] obtain r' where f: "first_row pk ?k (seen @ [r]) = Some r'"
        and g: "\<forall>p. p \<notin> set rels \<longrightarrow> get e p = get (read_columns rt cols (\<lambda>c. c) r') p"
        by blast
      have "\<forall>p. p \<notin> set rels \<longrightarrow> get e1 p = get e p"
        using at Some by (simp add: attach_relations_other)
      with f g show ?thesis by simp
    qed
    have "\<exists>r'. first_row pk k (seen @ [r]) = Some r'
           \<and> (\<forall>p. p \<notin> set rels \<longrightarrow> get e p = get (read_columns rt cols (\<lambda>c. c) r') p)"
      if "(k, e) \<in> set m1" for k e
    proof -
      from that map_set_subset [of m ?k e1] have "(k, e) \<in> set m \<or> (k, e) = (?k, e1)"
        unfolding m1 by blast
      with old new show ?thesis by blast
    qed
    then have "from_first_rows rt cols pk rels (seen @ [r]) m1"
      unfolding from_first_rows_def by blast
    moreover have "fst ` set m1 = {k \<in> (\<lambda>r. get r pk) ` set (seen @ [r]). k \<noteq> VUndef \<and> k \<noteq> VNull}"
      unfolding m1 map_set_keys_set keys using False by auto
    ultimately show ?thesis by blast
  qed
qed

lemma map_rows_first:
  "from_first_rows rt cols pk rels seen m \<Longrightarrow>
   fst ` set m = {k \<in> (\<lambda>r. get r pk) ` set seen. k \<noteq> VUndef \<and> k \<noteq> VNull} \<Longrightarrow>
   map_rows rt t cols pk rels m rows = Inr m' \<Longrightarrow>
   from_first_rows rt cols pk rels (seen @ rows) m'"
proof (induction rows arbitrary: m seen)
  case Nil
  then show ?case by simp
next
  case (Cons r rows)
  from Cons.prems(3) obtain m1 where a: "map_row rt t cols pk rels m r = Inr m1"
    and b: "map_rows rt t cols pk rels m1 rows = Inr m'"
    by (auto split: sum.splits)
  from map_row_first [OF Cons.prems(1,2) a] Cons.IH [of "seen @ [r]" m1] b show ?case
    by simp
qed

lemma first_occurrence_wins:
  assumes "map_rows rt t cols pk rels [] rows = Inr m" and "(k, e) \<in> set m" and "p \<notin> set rels"
  shows "\<exists>r. first_row pk k rows = Some r \<and> get e p = get (read_columns rt cols (\<lambda>c. c) r) p"
proof -
  have "from_first_rows rt cols pk rels ([] @ rows) m"
    by (rule map_rows_first [OF _ _ assms(1)]) (simp_all add: from_first_rows_def)
  with assms(2,3) show ?thesis
    unfolding from_first_rows_def by fastforce
qed

text \<open>
  The relation arrays: when the key column of the related type is read as it is (no
  transformer and no built-in rule), the elements of a to-many relation array have
  pairwise distinct keys.
\<close>

lemma transformValue_plain:
  "opt_transformer (col_options col) = None \<Longrightarrow>
   opt_type (col_options col) \<notin> {Some SimpleArray, Some SimpleJson, Some Date} \<Longrightarrow>
   transformValue rt col v = v"
  by (cases v) (simp_all add: transformValue_def)

lemma read_fold_other:
  "p \<notin> col_propertyName ` set cs \<Longrightarrow> get (foldl (read_column rt alias r) e0 cs) p = get e0 p"
  by (induction cs arbitrary: e0) (auto simp: read_column_def Let_def get_put)

lemma read_columns_key:
  assumes "distinct (map col_propertyName cs)" and "c \<in> set cs"
    and "opt_transformer (col_options c) = None"
    and "opt_type (col_options c) \<notin> {Some SimpleArray, Some SimpleJson, Some Date}"
    and "get r (alias (columnName c)) \<noteq> VUndef"
  shows "get (read_columns rt cs alias r) (col_propertyName c) = get r (alias (columnName c))"
proof -
  from assms(2) obtain pre post where sp: "cs = pre @ c # post"
    by (auto dest: split_list)
  with assms(1) have n: "col_propertyName c \<notin> col_propertyName ` set post"
    by auto
  show ?thesis
    using assms(5)
    by (simp add: read_columns_def sp read_fold_other [OF n] read_column_def Let_def get_put
        transformValue_plain [OF assms(3,4)])
qed

lemma pk_column_mem: "pk_column cs = Some c \<Longrightarrow> c \<in> set cs"
  by (auto simp: pk_column_def find_Some_iff split: option.splits list.splits)

lemma find_has_key_None:
  "find (has_key p k) xs = None \<Longrightarrow> Inr k \<notin> set (map (\<lambda>x. member x p) xs)"
  by (auto simp: find_None_iff has_key_def)

lemma attach_relation_keeps_keys:
  assumes rel: "find_relation (storage rt) t rn = Some relation"
    and tm: "to_many relation"
    and pkc: "pk_column (relatedColumns (storage rt) relation) = Some pkc"
    and d: "distinct (map col_propertyName (relatedColumns (storage rt) relation))"
    and tr: "opt_transformer (col_options pkc) = None"
    and ty: "opt_type (col_options pkc) \<notin> {Some SimpleArray, Some SimpleJson, Some Date}"
    and inv: "distinct_keys rn (col_propertyName pkc) e"
    and step: "attach_relation rt t r e rn' = Inr e'"
  shows "distinct_keys rn (col_propertyName pkc) e'"
proof (cases "rn' = rn")
  case False
  from step have "e' = e \<or> (\<exists>v. e' = put e rn' v)"
    by (auto simp: attach_relation_def Let_def split: option.splits if_splits val.splits)
  with False inv show ?thesis
    by (auto simp: distinct_keys_def get_put)
next
  case True
  let ?p = "col_propertyName pkc"
  let ?k = "get r (rn @ ''_'' @ columnName pkc)"
  let ?new = "VObj (read_columns rt (relatedColumns (storage rt) relation) (\<lambda>c. rn @ ''_'' @ c) r)"
  from inv obtain xs where xs: "get e rn = VArr xs" and dx: "distinct (map (\<lambda>x. member x ?p) xs)"
    by (auto simp: distinct_keys_def split: val.splits)
  show ?thesis
  proof (cases "?k \<noteq> VUndef \<and> ?k \<noteq> VNull \<and> to_many relation \<and> find (has_key ?p ?k) xs = None")
    case False
    with step True rel pkc xs tm have "e' = e"
      by (auto simp: attach_relation_def Let_def split: if_splits option.splits)
    with inv show ?thesis by simp
  next
    case c: True
    then have e': "e' = put e rn (VArr (xs @ [?new]))"
      using step True rel pkc xs
      by (simp add: attach_relation_def Let_def)
    from c have k: "?k \<noteq> VUndef" by simp
    have "member ?new ?p = Inr ?k"
      using read_columns_key [OF d pk_column_mem [OF pkc] tr ty, of r "\<lambda>c. rn @ ''_'' @ c" rt] k
      by simp
    with c dx find_has_key_None [of ?p ?k xs] show ?thesis
      by (simp add: e' distinct_keys_def get_put)
  qed
qed

lemma attach_relations_keep_keys:
  assumes rel: "find_relation (storage rt) t rn = Some relation"
    and tm: "to_many relation"
    and pkc: "pk_column (relatedColumns (storage rt) relation) = Some pkc"
    and d: "distinct (map col_propertyName (relatedColumns (storage rt) relation))"
    and tr: "opt_transformer (col_options pkc) = None"
    and ty: "opt_type (col_options pkc) \<notin> {Some SimpleArray, Some SimpleJson, Some Date}"
  shows "distinct_keys rn (col_propertyName pkc) e \<Longrightarrow> attach_relations rt t r rels e = Inr e' \<Longrightarrow>
         distinct_keys rn (col_propertyName pkc) e'"
proof (induction rels arbitrary: e)
  case Nil
  then show ?case by simp
next
  case (Cons rn' rels)
  from Cons.prems(2) obtain e1 where a: "attach_relation rt t r e rn' = Inr e1"
    and b: "attach_relations rt t r rels e1 = Inr e'"
    by (auto split: sum.splits)
  from attach_relation_keeps_keys [OF rel tm pkc d tr ty Cons.prems(1) a] b show ?case
    by (rule Cons.IH)
qed

lemma new_root_relation:
  assumes "find_relation (storage rt) t rn = Some relation" and "to_many relation" and "rn \<in> set rels"
  shows "get (new_root rt t cols rels r) rn = VArr []"
proof -
  have "rn \<in> set rels \<Longrightarrow>
        get (foldl (\<lambda>e relationName.
              case find_relation (storage rt) t relationName of
                None \<Rightarrow> e
              | Some relation \<Rightarrow> put e relationName (if to_many relation then VArr [] else VNull))
           e0 rels) rn = VArr []" for e0
  proof (induction rels arbitrary: e0 rule: rev_induct)
    case Nil
    then show ?case by simp
  next
    case (snoc x xs)
    then show ?case
      using assms(1,2) by (cases "x = rn") (auto simp: get_put split: option.splits)
  qed
  with assms(3) show ?thesis
    by (simp add: new_root_def)
qed

lemma map_rows_keep_keys:
  assumes rel: "find_relation (storage rt) t rn = Some relation"
    and tm: "to_many relation"
    and mem: "rn \<in> set rels"
    and pkc: "pk_column (relatedColumns (storage rt) relation) = Some pkc"
    and d: "distinct (map col_propertyName (relatedColumns (storage rt) relation))"
    and tr: "opt_transformer (col_options pkc) = None"
    and ty: "opt_type (col_options pkc) \<notin> {Some SimpleArray, Some SimpleJson, Some Date}"
  shows "\<forall>(k, e) \<in> set m. distinct_keys rn (col_propertyName pkc) e \<Longrightarrow>
         map_rows rt t cols pk rels m rows = Inr m' \<Longrightarrow>
         \<forall>(k, e) \<in> set m'. distinct_keys rn (col_propertyName pkc) e"
proof (induction rows arbitrary: m)
  case Nil
  then show ?case by simp
next
  case (Cons r rows)
  from Cons.prems(2) obtain m1 where a: "map_row rt t cols pk rels m r = Inr m1"
    and b: "map_rows rt t cols pk rels m1 rows = Inr m'"
    by (auto split: sum.splits)
  have "\<forall>(k, e) \<in> set m1. distinct_keys rn (col_propertyName pkc) e"
  proof (cases "get r pk = VUndef \<or> get r pk = VNull")
    case True
    with a Cons.prems(1) show ?thesis
      by (auto simp: map_row_def Let_def)
  next
    case False
    let ?e0 = "case map_of m (get r pk) of Some e \<Rightarrow> e | None \<Rightarrow> new_root rt t cols rels r"
    from False a obtain e1 where at: "attach_relations rt t r rels ?e0 = Inr e1"
      and m1: "m1 = map_set m (get r pk) e1"
      by (auto simp: map_row_def Let_def split: sum.splits)
    have "distinct_keys rn (col_propertyName pkc) ?e0"
    proof (cases "map_of m (get r pk)")
      case None
      then show ?thesis
        by (simp add: distinct_keys_def new_root_relation [OF rel tm mem])
    next
      case (Some e)
      then have "(get r pk, e) \<in> set m" by (rule map_of_SomeD)
      with Cons.prems(1) Some show ?thesis by auto
    qed
    from attach_relations_keep_keys [OF rel tm pkc d tr ty this at]
    have "distinct_keys rn (col_propertyName pkc) e1" .
    with Cons.prems(1) map_set_subset [of m "get r pk" e1] show ?thesis
      unfolding m1 by blast
  qed
  from Cons.IH [OF this b] show ?case .
qed

text \<open>
  C4. Each to-many relation array should hold at most one element per related
  primary-key value. The roots are grouped by the raw key of the row, but an element of
  a relation array is looked up by comparing its key property, which has gone through
  the value transform, with the raw key of the row. Notes have a primary column that is
  read through a transformer (the number 5 becomes the string \<open>5\<close>): two rows of a
  user joined with the same note give one root whose array holds the note twice.
\<close>

theorem transformed_key_defeats_deduplication:
  "mapResults (example_runtime accepting) 2
     [[(''id'', VNum 1), (''notes_id'', VNum 5), (''notes_body'', VStr ''n'')],
      [(''id'', VNum 1), (''notes_id'', VNum 5), (''notes_body'', VStr ''n'')]] [''notes'']
   = Inr ([[(''id'', VNum 1),
            (''notes'', VArr [VObj [(''id'', VStr ''5''), (''body'', VStr ''n'')],
                              VObj [(''id'', VStr ''5''), (''body'', VStr ''n'')]])]], [])"
  by code_simp

end
